theory Spec2Isabelle
  imports Complex_Main "HOL-Library.Sublist" "HOL-Library.Log_Nat"
begin

section \<open>Numbers\<close>

text \<open>
  Python floats are modelled as real numbers: a real stands for the double
  nearest to it, and comparisons against the clinical thresholds, sums, products
  and quotients are the exact ones. The timeline projector, whose sums and
  quotients are rounded to two decimals and can sit on a decimal tie, is modelled
  in the arithmetic of doubles, below. The not-a-number marker that pandas uses
  for a missing cell is a separate value, \<open>None\<close> of \<open>real option\<close>; infinities
  are outside the model.
\<close>

type_synonym num = "real option"

text \<open>\<^verbatim>\<open>np.clip(x, lo, hi)\<close> and \<^verbatim>\<open>Series.clip(lo, hi)\<close> on one value.\<close>

definition clip :: "real \<Rightarrow> real \<Rightarrow> real \<Rightarrow> real" where
  "clip x lo hi = min (max x lo) hi"

text \<open>
  Python's \<^verbatim>\<open>round(x, n)\<close> on a float: the nearest multiple of \<open>10\<^sup>-\<^sup>n\<close>, a tie
  going to the even digit.
\<close>

definition round_half_even :: "real \<Rightarrow> int" where
  "round_half_even y =
     (let f = \<lfloor>y\<rfloor>; d = y - of_int f
      in if d < 1 / 2 then f
         else if 1 / 2 < d then f + 1
         else if even f then f else f + 1)"

definition py_round :: "real \<Rightarrow> nat \<Rightarrow> real" where
  "py_round x n = of_int (round_half_even (x * 10 ^ n)) / 10 ^ n"

text \<open>
  Double precision. \<open>binary_exponent x\<close> is the \<open>e\<close> with \<open>2\<^sup>e \<le> |x| < 2\<^sup>e\<^sup>+\<^sup>1\<close>;
  \<open>fl x\<close> is the double nearest to \<open>x\<close>, a tie going to the even mantissa:
  53 significant bits from the exponent -1022 upwards, the fixed spacing of the
  subnormals below. Every operation on doubles returns \<open>fl\<close> of the exact
  result. Overflow to infinity is not modelled.
\<close>

definition binary_exponent :: "real \<Rightarrow> int" where
  "binary_exponent x =
     (if 1 \<le> \<bar>x\<bar> then int (floorlog 2 (nat \<lfloor>\<bar>x\<bar>\<rfloor>)) - 1
      else - int (floorlog 2 (nat \<lceil>1 / \<bar>x\<bar>\<rceil> - 1)))"

definition fl :: "real \<Rightarrow> real" where
  "fl x =
     (if x = 0 then 0
      else (let e = max (binary_exponent x) (- 1022);
                q = 2 powi (e - 52)
            in of_int (round_half_even (x / q)) * q))"

definition fadd :: "real \<Rightarrow> real \<Rightarrow> real" where
  "fadd a b = fl (a + b)"

definition fsub :: "real \<Rightarrow> real \<Rightarrow> real" where
  "fsub a b = fl (a - b)"

definition fmul :: "real \<Rightarrow> real \<Rightarrow> real" where
  "fmul a b = fl (a * b)"

definition fdiv :: "real \<Rightarrow> real \<Rightarrow> real" where
  "fdiv a b = fl (a / b)"

section \<open>The request record of the server\<close>

text \<open>\<^verbatim>\<open>class PatientData(BaseModel)\<close> of api_server.py.\<close>

record PatientData =
  name :: "string option"
  age :: real
  gender :: string
  age_diagnosis :: real
  myopic_parents :: string
  outdoor_hours :: real
  screen_hours :: real
  had_myopia_control :: bool
  re_spherical :: real
  re_cylinder :: real
  le_spherical :: real
  le_cylinder :: real
  re_axial_length :: real
  le_axial_length :: real
  wearing_hours :: real
  qol_score :: "real option"

section \<open>The risk-factor scorer\<close>

text \<open>
  One entry of the \<^verbatim>\<open>factors\<close> list of \<^verbatim>\<open>_calculate_risk_factors\<close>. The
  \<^verbatim>\<open>description\<close> text, a formatted rendering of the same numbers, is not part of
  the model.
\<close>

record risk_factor =
  factor :: string
  score :: real
  impact :: string

record risk_factors =
  factors :: "risk_factor list"
  total_score :: real
  max_possible_score :: real
  risk_percentage :: real

text \<open>The seven \<^verbatim>\<open>if\<close>/\<^verbatim>\<open>elif\<close> chains, in the order the source appends them.\<close>

definition age_risk :: "PatientData \<Rightarrow> risk_factor" where
  "age_risk patient_data =
     (if age patient_data < 10 then \<lparr>factor = ''Young Age'', score = 2, impact = ''High''\<rparr>
      else if age patient_data < 12 then \<lparr>factor = ''Age'', score = 1, impact = ''Medium''\<rparr>
      else \<lparr>factor = ''Age'', score = 0, impact = ''Low''\<rparr>)"

definition genetic_risk :: "int \<Rightarrow> risk_factor" where
  "genetic_risk myopic_parents_encoded =
     (if myopic_parents_encoded = 2 then \<lparr>factor = ''Genetics'', score = 2, impact = ''High''\<rparr>
      else if myopic_parents_encoded = 1 then \<lparr>factor = ''Genetics'', score = 1, impact = ''Medium''\<rparr>
      else \<lparr>factor = ''Genetics'', score = 0, impact = ''Low''\<rparr>)"

definition severity_risk :: "real \<Rightarrow> risk_factor" where
  "severity_risk myopia_severity =
     (if myopia_severity > 3 then \<lparr>factor = ''Myopia Severity'', score = 2, impact = ''High''\<rparr>
      else if myopia_severity > 1.5 then \<lparr>factor = ''Myopia Severity'', score = 1, impact = ''Medium''\<rparr>
      else \<lparr>factor = ''Myopia Severity'', score = 0, impact = ''Low''\<rparr>)"

definition axial_risk :: "real \<Rightarrow> risk_factor" where
  "axial_risk avg_axial_length =
     (if avg_axial_length > 24.5 then \<lparr>factor = ''Axial Length'', score = 2, impact = ''High''\<rparr>
      else if avg_axial_length > 24.0 then \<lparr>factor = ''Axial Length'', score = 1, impact = ''Medium''\<rparr>
      else \<lparr>factor = ''Axial Length'', score = 0, impact = ''Low''\<rparr>)"

definition screen_risk :: "PatientData \<Rightarrow> risk_factor" where
  "screen_risk patient_data =
     (if screen_hours patient_data > 4 then \<lparr>factor = ''Screen Time'', score = 1, impact = ''High''\<rparr>
      else if screen_hours patient_data > 3 then \<lparr>factor = ''Screen Time'', score = 0.5, impact = ''Medium''\<rparr>
      else \<lparr>factor = ''Screen Time'', score = 0, impact = ''Low''\<rparr>)"

definition outdoor_risk :: "PatientData \<Rightarrow> risk_factor" where
  "outdoor_risk patient_data =
     (if outdoor_hours patient_data < 2 then \<lparr>factor = ''Outdoor Time'', score = 1, impact = ''High''\<rparr>
      else \<lparr>factor = ''Outdoor Time'', score = 0, impact = ''Low''\<rparr>)"

definition compliance_risk :: "real \<Rightarrow> risk_factor" where
  "compliance_risk compliance_score =
     (if compliance_score < 0.75 then \<lparr>factor = ''Treatment Compliance'', score = 1, impact = ''High''\<rparr>
      else if compliance_score < 0.9 then \<lparr>factor = ''Treatment Compliance'', score = 0.5, impact = ''Medium''\<rparr>
      else \<lparr>factor = ''Treatment Compliance'', score = 0, impact = ''Low''\<rparr>)"

text \<open>\<^verbatim>\<open>_calculate_risk_factors\<close>; \<^verbatim>\<open>avg_spherical\<close> is passed and never read.\<close>

definition calculate_risk_factors ::
  "PatientData \<Rightarrow> real \<Rightarrow> real \<Rightarrow> real \<Rightarrow> real \<Rightarrow> int \<Rightarrow> risk_factors" where
  "calculate_risk_factors patient_data avg_spherical myopia_severity avg_axial_length
       compliance_score myopic_parents_encoded =
     (let fs = [age_risk patient_data,
                genetic_risk myopic_parents_encoded,
                severity_risk myopia_severity,
                axial_risk avg_axial_length,
                screen_risk patient_data,
                outdoor_risk patient_data,
                compliance_risk compliance_score];
          total = sum_list (map score fs)
      in \<lparr>factors = fs, total_score = total, max_possible_score = 10,
          risk_percentage = (total / 10) * 100\<rparr>)"

section \<open>The progression-timeline projector\<close>

record timeline_entry =
  year :: nat
  projected_age :: real
  severity_with_treatment :: real
  severity_without_treatment :: real
  saved_diopters :: real

text \<open>
  The body of the \<^verbatim>\<open>for year in years\<close> loop of
  \<^verbatim>\<open>_calculate_progression_timeline\<close>, in double arithmetic: the three arguments
  are doubles, the year is converted exactly, and each sum, product, quotient and
  difference is rounded to a double before \<^verbatim>\<open>round\<close> sees it.
\<close>

definition timeline_step :: "real \<Rightarrow> real \<Rightarrow> real \<Rightarrow> nat \<Rightarrow> timeline_entry" where
  "timeline_step annual_progression current_age current_severity yr =
     (let annual_progression = fl annual_progression;
          current_age = fl current_age;
          current_severity_float = fl current_severity;
          projected_severity = fadd current_severity_float (fmul annual_progression (real yr));
          projected_age' = fadd current_age (real yr);
          without_treatment_rate = fdiv annual_progression (fl 0.4);
          projected_without =
            fadd current_severity_float (fmul without_treatment_rate (real yr))
      in \<lparr>year = yr,
          projected_age = py_round projected_age' 1,
          severity_with_treatment = py_round projected_severity 2,
          severity_without_treatment = py_round projected_without 2,
          saved_diopters = py_round (fsub projected_without projected_severity) 2\<rparr>)"

fun timeline_loop :: "real \<Rightarrow> real \<Rightarrow> real \<Rightarrow> nat list \<Rightarrow> timeline_entry list \<Rightarrow> timeline_entry list" where
  "timeline_loop ap ca cs [] timeline = timeline"
| "timeline_loop ap ca cs (yr # yrs) timeline =
     timeline_loop ap ca cs yrs (timeline @ [timeline_step ap ca cs yr])"

definition calculate_progression_timeline :: "real \<Rightarrow> real \<Rightarrow> real \<Rightarrow> timeline_entry list" where
  "calculate_progression_timeline annual_progression current_age current_severity =
     timeline_loop annual_progression current_age current_severity [1, 2, 3, 5] []"

section \<open>Errors and strings\<close>

text \<open>The exceptions that the modelled code can meet.\<close>

datatype py_error =
  ValueError | KeyError | IndexError | AttributeError | ZeroDivisionError
  | NotFittedError | UnpicklingError | FileNotFoundError

text \<open>
  \<^verbatim>\<open>try: body except: return handler\<close> with a bare \<^verbatim>\<open>except\<close>: whatever the
  body raises is swallowed and the handler's value returned.
\<close>

definition try_except :: "py_error + 'a \<Rightarrow> 'a \<Rightarrow> py_error + 'a" where
  "try_except body handler = (case body of Inl e \<Rightarrow> Inr handler | Inr v \<Rightarrow> Inr v)"

definition bind_res :: "py_error + 'a \<Rightarrow> ('a \<Rightarrow> py_error + 'b) \<Rightarrow> py_error + 'b" where
  "bind_res r f = (case r of Inl e \<Rightarrow> Inl e | Inr v \<Rightarrow> f v)"

text \<open>
  Strings are ASCII: \<^verbatim>\<open>str.upper\<close> and \<^verbatim>\<open>str.lower\<close> change the 26 letters and
  nothing else.
\<close>

definition char_upper :: "char \<Rightarrow> char" where
  "char_upper c =
     (case map_of (zip ''abcdefghijklmnopqrstuvwxyz'' ''ABCDEFGHIJKLMNOPQRSTUVWXYZ'') c of
        Some u \<Rightarrow> u | None \<Rightarrow> c)"

definition char_lower :: "char \<Rightarrow> char" where
  "char_lower c =
     (case map_of (zip ''ABCDEFGHIJKLMNOPQRSTUVWXYZ'' ''abcdefghijklmnopqrstuvwxyz'') c of
        Some l \<Rightarrow> l | None \<Rightarrow> c)"

definition upper :: "string \<Rightarrow> string" where
  "upper s = map char_upper s"

definition lower :: "string \<Rightarrow> string" where
  "lower s = map char_lower s"

text \<open>\<^verbatim>\<open>w in s\<close> on strings: \<open>w\<close> occurs in \<open>s\<close> as a contiguous run.\<close>

fun py_in :: "string \<Rightarrow> string \<Rightarrow> bool" where
  "py_in w [] = (w = [])"
| "py_in w (c # cs) = (prefix w (c # cs) \<or> py_in w cs)"

definition is_space :: "char \<Rightarrow> bool" where
  "is_space c = (c \<in> set [CHR '' '', CHR 0x09, CHR 0x0A, CHR 0x0B, CHR 0x0C, CHR 0x0D,
                           CHR 0x1C, CHR 0x1D, CHR 0x1E, CHR 0x1F])"

definition strip :: "string \<Rightarrow> string" where
  "strip s = rev (dropWhile is_space (rev (dropWhile is_space s)))"

text \<open>\<^verbatim>\<open>s.replace(old, '')\<close> for a non-empty \<open>old\<close>: every occurrence, left to right.\<close>

function remove_all :: "string \<Rightarrow> string \<Rightarrow> string" where
  "remove_all old [] = []"
| "remove_all old (c # cs) =
     (if old \<noteq> [] \<and> prefix old (c # cs) then remove_all old (drop (length old) (c # cs))
      else c # remove_all old cs)"
  by pat_completeness auto
termination
  by (relation "measure (\<lambda>(old, s). length s)") (auto simp: neq_Nil_conv)

text \<open>\<^verbatim>\<open>s.split(sep)[0]\<close>: the text before the first occurrence of \<open>sep\<close>.\<close>

fun before_first :: "string \<Rightarrow> string \<Rightarrow> string" where
  "before_first sep [] = []"
| "before_first sep (c # cs) = (if prefix sep (c # cs) then [] else c # before_first sep cs)"

definition is_digit :: "char \<Rightarrow> bool" where
  "is_digit c = (c \<in> set ''0123456789'')"

text \<open>
  \<^verbatim>\<open>re.findall(r'\d+(?:\.\d+)?', s)\<close>, first match only: the first run of digits,
  with a fraction when a dot and a digit follow it. \<open>None\<close> when the list is empty.
\<close>

definition first_number :: "string \<Rightarrow> string option" where
  "first_number s =
     (let t = dropWhile (\<lambda>c. \<not> is_digit c) s;
          ip = takeWhile is_digit t;
          r = dropWhile is_digit t
      in if ip = [] then None
         else (case r of
                 d # r' \<Rightarrow>
                   if d = CHR ''.'' \<and> takeWhile is_digit r' \<noteq> []
                   then Some (ip @ [d] @ takeWhile is_digit r')
                   else Some ip
               | [] \<Rightarrow> Some ip))"

section \<open>Field parsers\<close>

text \<open>
  A cell of the spreadsheet: empty (pandas reads it as NaN, \<^verbatim>\<open>pd.isna\<close> holds), a
  number, or text.
\<close>

datatype raw = Missing | Num real | Str string

text \<open>
  The builtin \<^verbatim>\<open>float(text)\<close> is a parameter \<open>pf\<close> of every parser: it returns
  a number, NaN for the text \<^verbatim>\<open>nan\<close>, or raises \<^verbatim>\<open>ValueError\<close>. For a numeric cell
  \<^verbatim>\<open>str(value)\<close> is its decimal rendering, which holds no unit token and which
  \<^verbatim>\<open>float\<close> reads back as the same number, so the parsers return the number.
\<close>

type_synonym float_fn = "string \<Rightarrow> py_error + num"

definition extract_age :: "float_fn \<Rightarrow> raw \<Rightarrow> py_error + num" where
  "extract_age pf age_str =
     (case age_str of
        Missing \<Rightarrow> Inr None
      | Num x \<Rightarrow> try_except (Inr (Some x)) None
      | Str s \<Rightarrow>
          (let age_str = upper s
           in try_except
                (if py_in ''YRS'' age_str \<or> py_in ''YR'' age_str
                 then pf (strip (remove_all ''YR'' (remove_all ''YRS'' age_str)))
                 else pf age_str)
                None))"

definition extract_hours :: "float_fn \<Rightarrow> raw \<Rightarrow> py_error + num" where
  "extract_hours pf time_str =
     (case time_str of
        Missing \<Rightarrow> Inr None
      | Num x \<Rightarrow> try_except (Inr (Some x)) None
      | Str s \<Rightarrow>
          (let time_str = lower s
           in try_except
                (if py_in ''hr'' time_str
                 then (case first_number time_str of
                         Some n \<Rightarrow> pf n
                       | None \<Rightarrow> pf time_str)
                 else pf time_str)
                None))"

text \<open>The two clean-up steps of \<^verbatim>\<open>_extract_diopters\<close> on the upper-cased text.\<close>

definition diopter_text :: "string \<Rightarrow> string" where
  "diopter_text value_str =
     (let value_str = (if py_in ''DS'' value_str
                       then strip (remove_all ''DS'' value_str) else value_str);
          value_str = (if py_in ''DC'' value_str
                       then strip (before_first ''DC'' value_str) else value_str)
      in value_str)"

definition extract_diopters :: "float_fn \<Rightarrow> raw \<Rightarrow> py_error + num" where
  "extract_diopters pf v =
     (case v of
        Missing \<Rightarrow> Inr (Some 0)
      | Num x \<Rightarrow> if x = 0 then Inr (Some 0) else try_except (Inr (Some x)) (Some 0)
      | Str s \<Rightarrow>
          (let value_str = upper s
           in try_except (pf (diopter_text value_str)) (Some 0)))"

definition extract_axial_length :: "float_fn \<Rightarrow> raw \<Rightarrow> py_error + num" where
  "extract_axial_length pf v =
     (case v of
        Missing \<Rightarrow> Inr None
      | Num x \<Rightarrow> try_except (Inr (Some x)) None
      | Str s \<Rightarrow>
          (let value_str = upper s
           in try_except (pf (strip (remove_all ''MM'' value_str))) None))"

text \<open>
  \<^verbatim>\<open>_encode_myopic_parents\<close>. The rendering of a number holds none of the four
  words, so a numeric cell falls through to 0.
\<close>

definition encode_myopic_parents :: "raw \<Rightarrow> int" where
  "encode_myopic_parents v =
     (case v of
        Missing \<Rightarrow> 0
      | Num x \<Rightarrow> 0
      | Str s \<Rightarrow>
          (let v = upper s
           in if py_in ''BOTH'' v \<or> py_in ''MOTHER, FATHER'' v \<or> py_in ''FATHER, MOTHER'' v then 2
              else if py_in ''MOTHER'' v \<or> py_in ''FATHER'' v \<or> py_in ''ONE'' v then 1
              else 0))"

text \<open>
  Two readings of "the value names the word", both blind to case: the word occurs
  somewhere in the text, or it occurs as a whole word, with no letter before or
  after it.
\<close>

definition mentions :: "string \<Rightarrow> string \<Rightarrow> bool" where
  "mentions w s = py_in (upper w) (upper s)"

definition is_letter :: "char \<Rightarrow> bool" where
  "is_letter c =
     (c \<in> set (''abcdefghijklmnopqrstuvwxyz'' @ ''ABCDEFGHIJKLMNOPQRSTUVWXYZ''))"

fun word_scan :: "string \<Rightarrow> bool \<Rightarrow> string \<Rightarrow> bool" where
  "word_scan w at_start [] = False"
| "word_scan w at_start (c # cs) =
     ((at_start \<and> prefix w (c # cs)
        \<and> (case drop (length w) (c # cs) of [] \<Rightarrow> True | d # ds \<Rightarrow> \<not> is_letter d))
      \<or> word_scan w (\<not> is_letter c) cs)"

definition has_word :: "string \<Rightarrow> string \<Rightarrow> bool" where
  "has_word w s = word_scan (upper w) True (upper s)"

text \<open>
  A stand-in for \<^verbatim>\<open>float\<close> on plain decimals, used in the closed examples: optional
  surrounding blanks, an optional sign, digits with an optional fraction. It
  agrees with \<^verbatim>\<open>float\<close> on the texts the examples give it.
\<close>

definition digit_val :: "char \<Rightarrow> nat" where
  "digit_val c = length (takeWhile (\<lambda>d. d \<noteq> c) ''0123456789'')"

definition digits_val :: "string \<Rightarrow> nat" where
  "digits_val ds = foldl (\<lambda>acc c. 10 * acc + digit_val c) 0 ds"

definition unsigned_decimal :: "string \<Rightarrow> py_error + num" where
  "unsigned_decimal s =
     (let ip = takeWhile is_digit s; r = dropWhile is_digit s
      in if r = [] then (if ip = [] then Inl ValueError else Inr (Some (real (digits_val ip))))
         else if hd r = CHR ''.'' \<and> list_all is_digit (tl r) \<and> (ip \<noteq> [] \<or> tl r \<noteq> [])
         then Inr (Some (real (digits_val ip) + real (digits_val (tl r)) / 10 ^ length (tl r)))
         else Inl ValueError)"

definition decimal_float :: float_fn where
  "decimal_float s =
     (case strip s of
        [] \<Rightarrow> Inl ValueError
      | c # cs \<Rightarrow>
          if c = CHR ''-'' then
            (case unsigned_decimal cs of Inl e \<Rightarrow> Inl e | Inr v \<Rightarrow> Inr (map_option uminus v))
          else if c = CHR ''+'' then unsigned_decimal cs
          else unsigned_decimal (c # cs))"

section \<open>The training feature builder\<close>

text \<open>One row of the renamed spreadsheet, with the columns \<^verbatim>\<open>_process_features\<close> reads.\<close>

record raw_record =
  age_raw :: raw
  gender_raw :: raw
  age_diagnosis_raw :: raw
  myopic_parents_raw :: raw
  outdoor_time_raw :: raw
  screen_time_raw :: raw
  myopia_control_raw :: raw
  re_spherical_raw :: raw
  re_cylinder_raw :: raw
  le_spherical_raw :: raw
  le_cylinder_raw :: raw
  re_axial_length_raw :: raw
  le_axial_length_raw :: raw
  wearing_time_raw :: raw

text \<open>
  pandas arithmetic on one cell: NaN in, NaN out. A zero divisor gives an infinity
  or NaN in pandas; the model has no infinity and records NaN.
\<close>

definition nan2 :: "(real \<Rightarrow> real \<Rightarrow> real) \<Rightarrow> num \<Rightarrow> num \<Rightarrow> num" where
  "nan2 f a b =
     (case a of None \<Rightarrow> None | Some x \<Rightarrow> (case b of None \<Rightarrow> None | Some y \<Rightarrow> Some (f x y)))"

definition nan_div :: "num \<Rightarrow> num \<Rightarrow> num" where
  "nan_div a b =
     (case a of None \<Rightarrow> None
      | Some x \<Rightarrow> (case b of None \<Rightarrow> None | Some y \<Rightarrow> if y = 0 then None else Some (x / y)))"

text \<open>Comparisons of a cell with a constant: every comparison with NaN is false.\<close>

definition nan_lt :: "num \<Rightarrow> real \<Rightarrow> bool" where
  "nan_lt a c = (case a of None \<Rightarrow> False | Some x \<Rightarrow> x < c)"

definition nan_le :: "num \<Rightarrow> real \<Rightarrow> bool" where
  "nan_le a c = (case a of None \<Rightarrow> False | Some x \<Rightarrow> x \<le> c)"

definition nan_gt :: "num \<Rightarrow> real \<Rightarrow> bool" where
  "nan_gt a c = (case a of None \<Rightarrow> False | Some x \<Rightarrow> x > c)"

definition nan_ge :: "num \<Rightarrow> real \<Rightarrow> bool" where
  "nan_ge a c = (case a of None \<Rightarrow> False | Some x \<Rightarrow> x \<ge> c)"

text \<open>\<^verbatim>\<open>!=\<close> is the one comparison that NaN satisfies.\<close>

definition nan_ne :: "num \<Rightarrow> real \<Rightarrow> bool" where
  "nan_ne a c = (case a of None \<Rightarrow> True | Some x \<Rightarrow> x \<noteq> c)"

definition bool_int :: "bool \<Rightarrow> int" where
  "bool_int b = (if b then 1 else 0)"

text \<open>\<^verbatim>\<open>df['gender'].map({'M': 1, 'F': 0, 'Male': 1, 'Female': 0})\<close>: no key, NaN.\<close>

definition gender_map :: "raw \<Rightarrow> num" where
  "gender_map v =
     (case v of
        Str s \<Rightarrow> map_of [(''M'', 1), (''F'', 0), (''Male'', 1), (''Female'', 0)] s
      | _ \<Rightarrow> None)"

definition notna :: "raw \<Rightarrow> bool" where
  "notna v = (v \<noteq> Missing)"

text \<open>The columns of \<^verbatim>\<open>processed\<close> for one row, before the targets and the median fill.\<close>

record processed =
  age_col :: num
  age_diagnosis_col :: num
  age_at_diagnosis_col :: num
  years_since_diagnosis_col :: num
  gender_col :: num
  myopic_parents_col :: int
  outdoor_hours_col :: num
  screen_hours_col :: num
  screen_outdoor_ratio_col :: num
  had_myopia_control_col :: int
  re_spherical_col :: num
  le_spherical_col :: num
  avg_spherical_col :: num
  myopia_severity_col :: num
  re_cylinder_col :: num
  le_cylinder_col :: num
  has_astigmatism_col :: int
  re_axial_length_col :: num
  le_axial_length_col :: num
  avg_axial_length_col :: num
  axial_length_abnormal_col :: int
  wearing_hours_col :: num
  compliance_score_col :: num

definition process_features_row :: "float_fn \<Rightarrow> raw_record \<Rightarrow> py_error + processed" where
  "process_features_row pf df =
     bind_res (extract_age pf (age_raw df)) (\<lambda>age'.
     bind_res (extract_age pf (age_diagnosis_raw df)) (\<lambda>age_diagnosis'.
     bind_res (extract_hours pf (outdoor_time_raw df)) (\<lambda>outdoor_hours'.
     bind_res (extract_hours pf (screen_time_raw df)) (\<lambda>screen_hours'.
     bind_res (extract_diopters pf (re_spherical_raw df)) (\<lambda>re_spherical'.
     bind_res (extract_diopters pf (le_spherical_raw df)) (\<lambda>le_spherical'.
     bind_res (extract_diopters pf (re_cylinder_raw df)) (\<lambda>re_cylinder'.
     bind_res (extract_diopters pf (le_cylinder_raw df)) (\<lambda>le_cylinder'.
     bind_res (extract_axial_length pf (re_axial_length_raw df)) (\<lambda>re_axial_length'.
     bind_res (extract_axial_length pf (le_axial_length_raw df)) (\<lambda>le_axial_length'.
     bind_res (extract_hours pf (wearing_time_raw df)) (\<lambda>wearing_hours'.
       (let avg_spherical' = nan2 (\<lambda>s d. s / d) (nan2 (+) re_spherical' le_spherical') (Some 2);
            avg_axial_length' =
              nan2 (\<lambda>s d. s / d) (nan2 (+) re_axial_length' le_axial_length') (Some 2)
        in Inr \<lparr>age_col = age',
                age_diagnosis_col = age_diagnosis',
                age_at_diagnosis_col = age_diagnosis',
                years_since_diagnosis_col = nan2 (-) age' age_diagnosis',
                gender_col = gender_map (gender_raw df),
                myopic_parents_col = encode_myopic_parents (myopic_parents_raw df),
                outdoor_hours_col = outdoor_hours',
                screen_hours_col = screen_hours',
                screen_outdoor_ratio_col =
                  nan_div screen_hours' (nan2 (+) outdoor_hours' (Some 0.1)),
                had_myopia_control_col = bool_int (notna (myopia_control_raw df)),
                re_spherical_col = re_spherical',
                le_spherical_col = le_spherical',
                avg_spherical_col = avg_spherical',
                myopia_severity_col = map_option abs avg_spherical',
                re_cylinder_col = re_cylinder',
                le_cylinder_col = le_cylinder',
                has_astigmatism_col = bool_int (nan_ne re_cylinder' 0 \<or> nan_ne le_cylinder' 0),
                re_axial_length_col = re_axial_length',
                le_axial_length_col = le_axial_length',
                avg_axial_length_col = avg_axial_length',
                axial_length_abnormal_col = bool_int (nan_gt avg_axial_length' 24.5),
                wearing_hours_col = wearing_hours',
                compliance_score_col =
                  map_option (\<lambda>w. clip w 0 1) (nan2 (\<lambda>w d. w / d) wearing_hours' (Some 12))\<rparr>))))))))))))"

text \<open>
  The terms of the rule score of \<^verbatim>\<open>_calculate_progression_risk\<close>, one definition
  per commented block of the source, and their sum.
\<close>

definition rule_age_term :: "num \<Rightarrow> real" where
  "rule_age_term a =
     of_int (bool_int (nan_lt a 10)) * 2 + of_int (bool_int (nan_ge a 10 \<and> nan_lt a 12)) * 1"

definition rule_screen_term :: "num \<Rightarrow> real" where
  "rule_screen_term h = of_int (bool_int (nan_gt h 3)) * 1"

definition rule_outdoor_term :: "num \<Rightarrow> real" where
  "rule_outdoor_term h = of_int (bool_int (nan_gt h 2)) * 1"

definition rule_severity_term :: "num \<Rightarrow> real" where
  "rule_severity_term s =
     of_int (bool_int (nan_gt s 3)) * 2 + of_int (bool_int (nan_gt s 1.5 \<and> nan_le s 3)) * 1"

definition rule_axial_term :: "num \<Rightarrow> real" where
  "rule_axial_term l = of_int (bool_int (nan_gt l 24.5)) * 2"

definition rule_score :: "'a processed_scheme \<Rightarrow> real" where
  "rule_score df =
     0 + rule_age_term (age_col df)
       + of_int (myopic_parents_col df)
       + rule_screen_term (screen_hours_col df)
       - rule_outdoor_term (outdoor_hours_col df)
       + rule_severity_term (myopia_severity_col df)
       + rule_axial_term (avg_axial_length_col df)"

text \<open>\<^verbatim>\<open>pd.cut(risk_score, bins=[-inf, 2, 4, inf], labels=[0, 1, 2])\<close>: right-closed bins.\<close>

definition calculate_progression_risk :: "'a processed_scheme \<Rightarrow> int" where
  "calculate_progression_risk df =
     (let risk_score = rule_score df
      in if risk_score \<le> 2 then 0 else if risk_score \<le> 4 then 1 else 2)"

definition estimate_progression :: "'a processed_scheme \<Rightarrow> num" where
  "estimate_progression df =
     (let base_progression = 0.5;
          age_factor = (if nan_lt (age_col df) 10 then 1.5
                        else if nan_lt (age_col df) 12 then 1.2 else 0.8);
          genetic_factor = 1 + of_int (myopic_parents_col df) * 0.2;
          env_factor = nan2 (-) (nan2 (+) (Some 1) (nan2 (\<lambda>h d. h / d) (screen_hours_col df) (Some 10)))
                         (nan2 (\<lambda>h d. h / d) (outdoor_hours_col df) (Some 10));
          stellest_effect = nan2 (*) (Some 0.4) (compliance_score_col df);
          progression = nan2 (*) (nan2 (*) (Some (base_progression * age_factor * genetic_factor))
                                    env_factor) stellest_effect
      in map_option (\<lambda>x. clip x 0 2) progression)"

text \<open>The \<^verbatim>\<open>feature_cols\<close> selection of \<^verbatim>\<open>train_models\<close>, in its order.\<close>

definition feature_cols :: "'a processed_scheme \<Rightarrow> num list" where
  "feature_cols df =
     [age_col df, age_at_diagnosis_col df, years_since_diagnosis_col df, gender_col df,
      Some (of_int (myopic_parents_col df)), outdoor_hours_col df, screen_hours_col df,
      screen_outdoor_ratio_col df, Some (of_int (had_myopia_control_col df)),
      myopia_severity_col df, Some (of_int (has_astigmatism_col df)),
      avg_axial_length_col df, Some (of_int (axial_length_abnormal_col df)),
      wearing_hours_col df, compliance_score_col df]"

text \<open>
  \<^verbatim>\<open>fillna\<close> with the column medians on one row: a NaN cell takes its column's
  median, every other cell stays. The medians come from the whole table.
\<close>

definition fillna :: "num list \<Rightarrow> real list \<Rightarrow> real list" where
  "fillna row medians = map (\<lambda>(v, m). case v of None \<Rightarrow> m | Some x \<Rightarrow> x) (zip row medians)"

definition training_features :: "float_fn \<Rightarrow> real list \<Rightarrow> raw_record \<Rightarrow> py_error + real list" where
  "training_features pf medians df =
     bind_res (process_features_row pf df) (\<lambda>processed. Inr (fillna (feature_cols processed) medians))"

section \<open>The prediction model\<close>

text \<open>
  The fitted scikit-learn objects are given by what \<^verbatim>\<open>predict\<close> asks of them. A
  classifier knows the labels it was fitted on (\<^verbatim>\<open>classes_\<close>), predicts one of
  them and returns one probability per label; a regressor returns a number; a
  scaler is the unfitted \<^verbatim>\<open>StandardScaler()\<close> of \<^verbatim>\<open>__init__\<close> or a fitted
  transform.
\<close>

record classifier =
  classes :: "int list"
  clf_predict :: "real list \<Rightarrow> int"
  predict_proba :: "real list \<Rightarrow> real list"

type_synonym regressor = "real list \<Rightarrow> real"

datatype scaler_obj = Unfitted | Fitted "real list \<Rightarrow> real list"

record MyopiaPredictionModel =
  progression_classifier :: "classifier option"
  progression_regressor :: "regressor option"
  scaler :: scaler_obj
  feature_importance :: "(string \<times> real) list option"

text \<open>\<^verbatim>\<open>__init__\<close>.\<close>

definition init_model :: MyopiaPredictionModel where
  "init_model = \<lparr>progression_classifier = None, progression_regressor = None,
                 scaler = Unfitted, feature_importance = None\<rparr>"

record stellest_benefit =
  without_stellest :: real
  with_stellest :: real
  reduction_percentage :: real

record probabilities =
  low :: real
  medium :: real
  high :: real

record prediction =
  risk_category :: string
  risk_score :: int
  risk_probabilities :: probabilities
  estimated_progression :: real
  stellest_effectiveness :: stellest_benefit

definition calculate_stellest_benefit :: "real list \<Rightarrow> real \<Rightarrow> stellest_benefit" where
  "calculate_stellest_benefit patient_data current_progression =
     (let compliance_score = (if length patient_data > 0 then last patient_data else 1.0);
          without = (if compliance_score > 0 then current_progression / (0.4 * compliance_score)
                     else current_progression / 0.4);
          benefit_pct = (if without > 0 then ((without - current_progression) / without) * 100
                         else 0)
      in \<lparr>without_stellest = py_round without 2,
          with_stellest = py_round current_progression 2,
          reduction_percentage = py_round benefit_pct 1\<rparr>)"

text \<open>Indexing a Python list or a numpy vector: a negative index counts from the end.\<close>

definition py_index :: "'a list \<Rightarrow> int \<Rightarrow> py_error + 'a" where
  "py_index xs i =
     (if 0 \<le> i \<and> i < int (length xs) then Inr (xs ! nat i)
      else if i < 0 \<and> - int (length xs) \<le> i then Inr (xs ! nat (int (length xs) + i))
      else Inl IndexError)"

definition risk_labels :: "string list" where
  "risk_labels = [''Low Risk'', ''Medium Risk'', ''High Risk'']"

text \<open>\<^verbatim>\<open>MyopiaPredictionModel.predict\<close>.\<close>

definition model_predict :: "MyopiaPredictionModel \<Rightarrow> real list \<Rightarrow> py_error + prediction" where
  "model_predict self patient_data =
     (case scaler self of
        Unfitted \<Rightarrow> Inl NotFittedError
      | Fitted transform \<Rightarrow>
          (let X = transform patient_data
           in case progression_classifier self of
                None \<Rightarrow> Inl AttributeError
              | Some clf \<Rightarrow>
                  (let risk_category' = clf_predict clf X;
                       risk_probability = predict_proba clf X
                   in case progression_regressor self of
                        None \<Rightarrow> Inl AttributeError
                      | Some reg \<Rightarrow>
                          (let progression_rate = reg X
                           in bind_res (py_index risk_labels risk_category') (\<lambda>label.
                              bind_res (py_index risk_probability 0) (\<lambda>p0.
                              bind_res (py_index risk_probability 1) (\<lambda>p1.
                              bind_res (py_index risk_probability 2) (\<lambda>p2.
                                Inr \<lparr>risk_category = label,
                                     risk_score = risk_category',
                                     risk_probabilities = \<lparr>low = p0, medium = p1, high = p2\<rparr>,
                                     estimated_progression = py_round progression_rate 2,
                                     stellest_effectiveness =
                                       calculate_stellest_benefit patient_data progression_rate\<rparr>))))))))"

section \<open>Persistence and the server's model loader\<close>

text \<open>
  What \<^verbatim>\<open>joblib.load\<close> finds at the model path: a file it cannot read back, or a
  dictionary in which each of the four keys is present (with its stored value) or
  absent.
\<close>

record model_data =
  classifier_entry :: "classifier option option"
  regressor_entry :: "regressor option option"
  scaler_entry :: "scaler_obj option"
  feature_importance_entry :: "(string \<times> real) list option option"

datatype persisted = Corrupted | Blob model_data

text \<open>
  \<^verbatim>\<open>MyopiaPredictionModel.load_model\<close>: the error raised, if any, and the instance
  as the assignments made before the raise leave it.
\<close>

definition model_load_model ::
  "MyopiaPredictionModel \<Rightarrow> persisted option \<Rightarrow> py_error option \<times> MyopiaPredictionModel" where
  "model_load_model self file =
     (case file of
        None \<Rightarrow> (Some FileNotFoundError, self)
      | Some Corrupted \<Rightarrow> (Some UnpicklingError, self)
      | Some (Blob d) \<Rightarrow>
          (case classifier_entry d of
             None \<Rightarrow> (Some KeyError, self)
           | Some c \<Rightarrow>
               (let self = self\<lparr>progression_classifier := c\<rparr>
                in case regressor_entry d of
                     None \<Rightarrow> (Some KeyError, self)
                   | Some r \<Rightarrow>
                       (let self = self\<lparr>progression_regressor := r\<rparr>
                        in case scaler_entry d of
                             None \<Rightarrow> (Some KeyError, self)
                           | Some s \<Rightarrow>
                               (let self = self\<lparr>scaler := s\<rparr>
                                in case feature_importance_entry d of
                                     None \<Rightarrow> (Some KeyError, self)
                                   | Some fi \<Rightarrow> (None, self\<lparr>feature_importance := fi\<rparr>))))))"

text \<open>\<^verbatim>\<open>save_model\<close>: the dictionary written to the model path.\<close>

definition save_model :: "MyopiaPredictionModel \<Rightarrow> persisted" where
  "save_model self =
     Blob \<lparr>classifier_entry = Some (progression_classifier self),
           regressor_entry = Some (progression_regressor self),
           scaler_entry = Some (scaler self),
           feature_importance_entry = Some (feature_importance self)\<rparr>"

text \<open>
  The process state of the server: the global \<^verbatim>\<open>model\<close>, the model file and the
  spreadsheet beside the script (\<open>None\<close>: no such file).
\<close>

record server_state =
  model_global :: "MyopiaPredictionModel option"
  model_file :: "persisted option"
  excel_file :: "raw_record list option"

text \<open>
  Fitting is scikit-learn's work and is a parameter: \<open>train rows\<close> stands for
  \<^verbatim>\<open>load_and_preprocess_data\<close> followed by \<^verbatim>\<open>train_models\<close>, and gives the instance
  with its four parts fitted, or the error raised on the way.
\<close>

type_synonym trainer = "raw_record list \<Rightarrow> py_error + MyopiaPredictionModel"

text \<open>The three lines that both the \<^verbatim>\<open>except\<close> and the \<^verbatim>\<open>else\<close> branch run.\<close>

definition train_new_model ::
  "trainer \<Rightarrow> server_state \<Rightarrow> (py_error + MyopiaPredictionModel) \<times> server_state" where
  "train_new_model train st =
     (case excel_file st of
        None \<Rightarrow> (Inl FileNotFoundError, st)
      | Some rows \<Rightarrow>
          (case train rows of
             Inl e \<Rightarrow> (Inl e, st)
           | Inr m \<Rightarrow> (Inr m, st\<lparr>model_global := Some m, model_file := Some (save_model m)\<rparr>)))"

text \<open>\<^verbatim>\<open>load_model\<close> of api_server.py.\<close>

definition server_load_model ::
  "trainer \<Rightarrow> server_state \<Rightarrow> (py_error + MyopiaPredictionModel) \<times> server_state" where
  "server_load_model train st =
     (case model_global st of
        Some m \<Rightarrow> (Inr m, st)
      | None \<Rightarrow>
          (let st = st\<lparr>model_global := Some init_model\<rparr>
           in case model_file st of
                Some f \<Rightarrow>
                  (case model_load_model init_model (Some f) of
                     (None, m) \<Rightarrow> (Inr m, st\<lparr>model_global := Some m\<rparr>)
                   | (Some e, m) \<Rightarrow> train_new_model train (st\<lparr>model_global := Some m\<rparr>))
              | None \<Rightarrow> train_new_model train st))"

section \<open>The prediction endpoint\<close>

text \<open>The locals of \<^verbatim>\<open>predict\<close> in api_server.py, each as a function of the request.\<close>

definition myopic_parents_encoded_of :: "PatientData \<Rightarrow> int" where
  "myopic_parents_encoded_of patient_data =
     (case map_of [(''None'', 0), (''One'', 1), (''Both'', 2)] (myopic_parents patient_data) of
        Some v \<Rightarrow> v | None \<Rightarrow> 0)"

definition gender_encoded_of :: "PatientData \<Rightarrow> int" where
  "gender_encoded_of patient_data =
     (if upper (gender patient_data) \<in> set [''M'', ''MALE''] then 1 else 0)"

definition avg_spherical_of :: "PatientData \<Rightarrow> real" where
  "avg_spherical_of patient_data = (re_spherical patient_data + le_spherical patient_data) / 2"

definition myopia_severity_of :: "PatientData \<Rightarrow> real" where
  "myopia_severity_of patient_data = \<bar>avg_spherical_of patient_data\<bar>"

definition avg_axial_length_of :: "PatientData \<Rightarrow> real" where
  "avg_axial_length_of patient_data =
     (re_axial_length patient_data + le_axial_length patient_data) / 2"

definition years_since_diagnosis_of :: "PatientData \<Rightarrow> real" where
  "years_since_diagnosis_of patient_data = age patient_data - age_diagnosis patient_data"

text \<open>Python's float division raises on a zero divisor.\<close>

definition screen_outdoor_ratio_of :: "PatientData \<Rightarrow> py_error + real" where
  "screen_outdoor_ratio_of patient_data =
     (if outdoor_hours patient_data + 0.1 = 0 then Inl ZeroDivisionError
      else Inr (screen_hours patient_data / (outdoor_hours patient_data + 0.1)))"

definition compliance_score_of :: "PatientData \<Rightarrow> real" where
  "compliance_score_of patient_data = clip (wearing_hours patient_data / 12) 0 1"

definition has_astigmatism_of :: "PatientData \<Rightarrow> int" where
  "has_astigmatism_of patient_data =
     (if re_cylinder patient_data \<noteq> 0 \<or> le_cylinder patient_data \<noteq> 0 then 1 else 0)"

definition axial_length_abnormal_of :: "PatientData \<Rightarrow> int" where
  "axial_length_abnormal_of patient_data =
     (if avg_axial_length_of patient_data > 24.5 then 1 else 0)"

definition features_of :: "PatientData \<Rightarrow> py_error + real list" where
  "features_of patient_data =
     bind_res (screen_outdoor_ratio_of patient_data) (\<lambda>screen_outdoor_ratio.
       Inr [age patient_data,
            age_diagnosis patient_data,
            years_since_diagnosis_of patient_data,
            of_int (gender_encoded_of patient_data),
            of_int (myopic_parents_encoded_of patient_data),
            outdoor_hours patient_data,
            screen_hours patient_data,
            screen_outdoor_ratio,
            (if had_myopia_control patient_data then 1 else 0),
            myopia_severity_of patient_data,
            of_int (has_astigmatism_of patient_data),
            avg_axial_length_of patient_data,
            of_int (axial_length_abnormal_of patient_data),
            wearing_hours patient_data,
            compliance_score_of patient_data])"

text \<open>
  The response of \<^verbatim>\<open>predict\<close>, without the echoed \<^verbatim>\<open>patient_info\<close> and the
  population comparison. \<open>Inl e\<close> is the \<^verbatim>\<open>HTTPException\<close> with status 500 that
  wraps \<open>e\<close>.
\<close>

record response =
  prediction_part :: prediction
  risk_factors_part :: risk_factors
  progression_timeline_part :: "timeline_entry list"

definition api_predict ::
  "trainer \<Rightarrow> server_state \<Rightarrow> PatientData \<Rightarrow> (py_error + response) \<times> server_state" where
  "api_predict train st patient_data =
     (case server_load_model train st of
        (Inl e, st') \<Rightarrow> (Inl e, st')
      | (Inr model_instance, st') \<Rightarrow>
          (bind_res (features_of patient_data) (\<lambda>features.
           bind_res (model_predict model_instance features) (\<lambda>prediction.
             Inr \<lparr>prediction_part = prediction,
                  risk_factors_part =
                    calculate_risk_factors patient_data (avg_spherical_of patient_data)
                      (myopia_severity_of patient_data) (avg_axial_length_of patient_data)
                      (compliance_score_of patient_data) (myopic_parents_encoded_of patient_data),
                  progression_timeline_part =
                    calculate_progression_timeline (estimated_progression prediction)
                      (age patient_data) (myopia_severity_of patient_data)\<rparr>)), st'))"

text \<open>The raw row that carries the same values as a request.\<close>

definition raw_of_patient :: "PatientData \<Rightarrow> raw_record" where
  "raw_of_patient p =
     \<lparr>age_raw = Num (age p),
      gender_raw = Str (gender p),
      age_diagnosis_raw = Num (age_diagnosis p),
      myopic_parents_raw = Str (myopic_parents p),
      outdoor_time_raw = Num (outdoor_hours p),
      screen_time_raw = Num (screen_hours p),
      myopia_control_raw = (if had_myopia_control p then Str ''Yes'' else Missing),
      re_spherical_raw = Num (re_spherical p),
      re_cylinder_raw = Num (re_cylinder p),
      le_spherical_raw = Num (le_spherical p),
      le_cylinder_raw = Num (le_cylinder p),
      re_axial_length_raw = Num (re_axial_length p),
      le_axial_length_raw = Num (le_axial_length p),
      wearing_time_raw = Num (wearing_hours p)\<rparr>"

section \<open>Example inputs\<close>

text \<open>The request of the end-to-end scenario: every factor at its highest.\<close>

definition patient_high :: PatientData where
  "patient_high =
     \<lparr>name = Some ''Patient'', age = 9, gender = ''M'', age_diagnosis = 7,
      myopic_parents = ''Both'', outdoor_hours = 1, screen_hours = 5,
      had_myopia_control = False, re_spherical = - 4, re_cylinder = 0,
      le_spherical = - 4, le_cylinder = 0, re_axial_length = 25, le_axial_length = 25,
      wearing_hours = 6, qol_score = None\<rparr>"

text \<open>The scorer with the arguments that \<^verbatim>\<open>predict\<close> passes for a request.\<close>

definition risk_factors_of :: "PatientData \<Rightarrow> risk_factors" where
  "risk_factors_of p =
     calculate_risk_factors p (avg_spherical_of p) (myopia_severity_of p)
       (avg_axial_length_of p) (compliance_score_of p) (myopic_parents_encoded_of p)"

text \<open>The feature vector and the processed training row of that request.\<close>

definition features_high :: "real list" where
  "features_high = [9, 7, 2, 1, 2, 1, 5, 50 / 11, 0, 4, 0, 25, 1, 6, 0.5]"

definition row_high :: processed where
  "row_high =
     \<lparr>age_col = Some 9, age_diagnosis_col = Some 7, age_at_diagnosis_col = Some 7,
      years_since_diagnosis_col = Some 2, gender_col = Some 1, myopic_parents_col = 2,
      outdoor_hours_col = Some 1, screen_hours_col = Some 5,
      screen_outdoor_ratio_col = Some (50 / 11), had_myopia_control_col = 0,
      re_spherical_col = Some (- 4), le_spherical_col = Some (- 4),
      avg_spherical_col = Some (- 4), myopia_severity_col = Some 4,
      re_cylinder_col = Some 0, le_cylinder_col = Some 0, has_astigmatism_col = 0,
      re_axial_length_col = Some 25, le_axial_length_col = Some 25,
      avg_axial_length_col = Some 25, axial_length_abnormal_col = 1,
      wearing_hours_col = Some 6, compliance_score_col = Some 0.5\<rparr>"

text \<open>
  A classifier fitted on labels of all three categories, and one fitted on a
  table in which no row was of medium risk: two classes, two probabilities.
\<close>

definition clf_three :: classifier where
  "clf_three =
     \<lparr>classes = [0, 1, 2], clf_predict = (\<lambda>X. 2), predict_proba = (\<lambda>X. [0.1, 0.2, 0.7])\<rparr>"

definition clf_two :: classifier where
  "clf_two = \<lparr>classes = [0, 2], clf_predict = (\<lambda>X. 2), predict_proba = (\<lambda>X. [0.3, 0.7])\<rparr>"

text \<open>A fitted instance around a classifier and a regressor; the scaler changes nothing.\<close>

definition fitted_with :: "classifier \<Rightarrow> regressor \<Rightarrow> MyopiaPredictionModel" where
  "fitted_with clf reg =
     \<lparr>progression_classifier = Some clf, progression_regressor = Some reg,
      scaler = Fitted (\<lambda>x. x), feature_importance = None\<rparr>"

text \<open>A fit that yields a given instance, and a server that already holds one.\<close>

definition trainer_giving :: "MyopiaPredictionModel \<Rightarrow> trainer" where
  "trainer_giving m = (\<lambda>rows. Inr m)"

definition serving :: "MyopiaPredictionModel \<Rightarrow> server_state" where
  "serving m = \<lparr>model_global = Some m, model_file = Some (save_model m), excel_file = None\<rparr>"

text \<open>The same request with the mother named as the myopic parent.\<close>

definition patient_mother :: PatientData where
  "patient_mother = patient_high\<lparr>myopic_parents := ''Mother''\<rparr>"

text \<open>
  A freshly started server whose model file cannot be read back, beside a
  spreadsheet of two rows; and a fitted instance for a fit to yield.
\<close>

definition corrupted_start :: server_state where
  "corrupted_start =
     \<lparr>model_global = None, model_file = Some Corrupted,
      excel_file = Some [raw_of_patient patient_high, raw_of_patient patient_mother]\<rparr>"

definition model_ok :: MyopiaPredictionModel where
  "model_ok = fitted_with clf_three (\<lambda>X. 0.5)"

section \<open>Properties of the risk-factor scorer\<close>

lemmas risk_defs = age_risk_def genetic_risk_def severity_risk_def axial_risk_def
  screen_risk_def outdoor_risk_def compliance_risk_def

lemma total_score_sum:
  "total_score (calculate_risk_factors p sp sev ax cs mp) =
     score (age_risk p) + score (genetic_risk mp) + score (severity_risk sev) +
     score (axial_risk ax) + score (screen_risk p) + score (outdoor_risk p) +
     score (compliance_risk cs)"
  by (simp add: calculate_risk_factors_def Let_def)

lemma total_score_is_sum_of_factors:
  "total_score (calculate_risk_factors p sp sev ax cs mp) =
     sum_list (map score (factors (calculate_risk_factors p sp sev ax cs mp)))"
  by (simp add: calculate_risk_factors_def Let_def)

lemma risk_percentage_of_total:
  "risk_percentage (calculate_risk_factors p sp sev ax cs mp) =
     (total_score (calculate_risk_factors p sp sev ax cs mp) / 10) * 100"
  by (simp add: calculate_risk_factors_def Let_def)

lemma total_score_at_most_eleven:
  "total_score (calculate_risk_factors p sp sev ax cs mp) \<le> 11"
  by (simp add: total_score_sum risk_defs)

text \<open>
  C6. The total is the sum of the seven contributions and the percentage is
  (total / 10) * 100, but the total can pass the reported maximum of 10: for the
  nine-year-old of the end-to-end scenario (both parents myopic, severity 4,
  axial length 25, five screen hours, one outdoor hour, compliance 0.5) the seven
  contributions 2 + 2 + 2 + 2 + 1 + 1 + 1 give 11, reported beside a maximum of 10
  as 110 percent.
\<close>

theorem risk_total_exceeds_reported_maximum:
  "total_score (risk_factors_of patient_high) = 11
   \<and> max_possible_score (risk_factors_of patient_high) = 10
   \<and> risk_percentage (risk_factors_of patient_high) = 110"
  by (simp add: risk_factors_of_def patient_high_def calculate_risk_factors_def Let_def risk_defs
      avg_spherical_of_def myopia_severity_of_def avg_axial_length_of_def compliance_score_of_def
      myopic_parents_encoded_of_def clip_def)

lemma age_risk_antimono:
  "a1 \<le> a2 \<Longrightarrow> score (age_risk (p\<lparr>age := a2\<rparr>)) \<le> score (age_risk (p\<lparr>age := a1\<rparr>))"
  by (simp add: age_risk_def)

lemma severity_risk_mono: "s1 \<le> s2 \<Longrightarrow> score (severity_risk s1) \<le> score (severity_risk s2)"
  by (simp add: severity_risk_def)

lemma axial_risk_mono: "l1 \<le> l2 \<Longrightarrow> score (axial_risk l1) \<le> score (axial_risk l2)"
  by (simp add: axial_risk_def)

text \<open>
  C9. With every other argument fixed, the total score does not fall when the age
  falls (at any age, so in particular below 12), when the severity rises, or when
  the average axial length rises.
\<close>

theorem risk_total_monotone:
  "(a1 \<le> a2 \<longrightarrow>
      total_score (calculate_risk_factors (p\<lparr>age := a2\<rparr>) sp sev ax cs mp)
      \<le> total_score (calculate_risk_factors (p\<lparr>age := a1\<rparr>) sp sev ax cs mp))
   \<and> (s1 \<le> s2 \<longrightarrow>
      total_score (calculate_risk_factors p sp s1 ax cs mp)
      \<le> total_score (calculate_risk_factors p sp s2 ax cs mp))
   \<and> (l1 \<le> l2 \<longrightarrow>
      total_score (calculate_risk_factors p sp sev l1 cs mp)
      \<le> total_score (calculate_risk_factors p sp sev l2 cs mp))"
proof (intro conjI impI)
  assume "a1 \<le> a2"
  from age_risk_antimono[OF this, of p]
  show "total_score (calculate_risk_factors (p\<lparr>age := a2\<rparr>) sp sev ax cs mp)
      \<le> total_score (calculate_risk_factors (p\<lparr>age := a1\<rparr>) sp sev ax cs mp)"
    by (simp add: total_score_sum screen_risk_def outdoor_risk_def)
next
  assume "s1 \<le> s2"
  from severity_risk_mono[OF this]
  show "total_score (calculate_risk_factors p sp s1 ax cs mp)
      \<le> total_score (calculate_risk_factors p sp s2 ax cs mp)"
    by (simp add: total_score_sum)
next
  assume "l1 \<le> l2"
  from axial_risk_mono[OF this]
  show "total_score (calculate_risk_factors p sp sev l1 cs mp)
      \<le> total_score (calculate_risk_factors p sp sev l2 cs mp)"
    by (simp add: total_score_sum)
qed

theorem risk_total_monotone_witness:
  "(9::real) \<le> 11 \<and> (2::real) \<le> 4 \<and> (24::real) \<le> 25
   \<and> total_score (calculate_risk_factors (patient_high\<lparr>age := 11\<rparr>) (- 4) 4 25 0.5 2)
      \<le> total_score (calculate_risk_factors (patient_high\<lparr>age := 9\<rparr>) (- 4) 4 25 0.5 2)
   \<and> total_score (calculate_risk_factors patient_high (- 4) 2 25 0.5 2)
      \<le> total_score (calculate_risk_factors patient_high (- 4) 4 25 0.5 2)
   \<and> total_score (calculate_risk_factors patient_high (- 4) 4 24 0.5 2)
      \<le> total_score (calculate_risk_factors patient_high (- 4) 4 25 0.5 2)"
  using risk_total_monotone [where ?a1.0 = 9 and ?a2.0 = 11 and p = patient_high and sp = "- 4"
      and sev = 4 and ax = 25 and cs = "0.5" and mp = 2 and ?s1.0 = 2 and ?s2.0 = 4
      and ?l1.0 = 24 and ?l2.0 = 25]
  by simp

lemmas rule_defs = rule_age_term_def rule_screen_term_def rule_outdoor_term_def
  rule_severity_term_def rule_axial_term_def bool_int_def
  nan_lt_def nan_le_def nan_gt_def nan_ge_def

text \<open>
  C3, as stated, fails: an average axial length of 24.25 mm is above the scorer's
  second cut-off of 24.0, which the training rule does not have, so the scorer
  contributes 1 where the rule's axial term is 0.
\<close>

theorem axial_threshold_counterexample:
  "score (axial_risk 24.25) = 1 \<and> rule_axial_term (Some 24.25) = 0"
  by (simp add: axial_risk_def rule_defs)

text \<open>
  C3, amended. The age, genetics (for an encoding 0, 1 or 2) and severity
  contributions equal the training rule's terms. The axial-length contribution
  is the rule's term plus 1 between 24.0 and 24.5; the screen-time contribution
  is the rule's term less 0.5 between 3 and 4 hours; the outdoor contribution is
  1 below 2 hours, where the rule subtracts 1 above 2 hours; the compliance
  contribution, with cut-offs 0.75 and 0.9, has no term in the rule.
\<close>

theorem risk_factor_thresholds:
  "score (age_risk p) = rule_age_term (Some (age p))
   \<and> (mp \<in> {0, 1, 2} \<longrightarrow> score (genetic_risk mp) = of_int mp)
   \<and> score (severity_risk sev) = rule_severity_term (Some sev)
   \<and> score (axial_risk ax) = rule_axial_term (Some ax) + (if 24.0 < ax \<and> ax \<le> 24.5 then 1 else 0)
   \<and> score (screen_risk p) = rule_screen_term (Some (screen_hours p))
                              - (if 3 < screen_hours p \<and> screen_hours p \<le> 4 then 0.5 else 0)
   \<and> score (outdoor_risk p) = (if outdoor_hours p < 2 then 1 else 0)
   \<and> rule_outdoor_term (Some (outdoor_hours p)) = (if outdoor_hours p > 2 then 1 else 0)
   \<and> score (compliance_risk cs) = (if cs < 0.75 then 1 else if cs < 0.9 then 0.5 else 0)"
  by (auto simp add: risk_defs rule_defs)

theorem risk_factor_thresholds_witness:
  "(2::int) \<in> {0, 1, 2} \<and> score (genetic_risk 2) = 2"
  using risk_factor_thresholds [where mp = 2] by simp

section \<open>Properties of double rounding\<close>

text \<open>
  Rounding to an integer moves a number by at most a half; \<open>fl\<close> moves a number
  of magnitude at most 1024 by at most \<open>2\<^sup>-\<^sup>4\<^sup>3\<close> and leaves a double where it is.
\<close>

lemma round_half_even_of_int [simp]: "round_half_even (of_int k) = k"
  by (simp add: round_half_even_def)

lemma round_half_even_close: "\<bar>of_int (round_half_even z) - z\<bar> \<le> 1 / 2"
  unfolding round_half_even_def Let_def by (auto; linarith)

lemma round_half_even_near: "\<bar>z - of_int n\<bar> < 1 / 2 \<Longrightarrow> round_half_even z = n"
proof -
  assume a: "\<bar>z - of_int n\<bar> < 1 / 2"
  have "\<bar>of_int (round_half_even z) - z\<bar> \<le> 1 / 2" by (rule round_half_even_close)
  with a have "\<bar>(of_int (round_half_even z) :: real) - of_int n\<bar> < 1" by linarith
  then have "\<bar>round_half_even z - n\<bar> < 1"
    by (metis of_int_diff of_int_abs of_int_less_1_iff)
  then show ?thesis by simp
qed

lemma binary_exponent_lower:
  assumes "x \<noteq> 0"
  shows "2 powi binary_exponent x \<le> \<bar>x\<bar>"
proof (cases "1 \<le> \<bar>x\<bar>")
  case True
  let ?n = "nat \<lfloor>\<bar>x\<bar>\<rfloor>"
  have n: "0 < ?n" using True by simp
  have fpos: "0 < floorlog 2 ?n" using n by (simp add: floorlog_def)
  from floorlog_bounds [of ?n 2] n have "2 ^ (floorlog 2 ?n - 1) \<le> ?n" by simp
  then have "(2::real) ^ (floorlog 2 ?n - 1) \<le> real ?n"
    by (metis of_nat_le_iff of_nat_numeral of_nat_power)
  also have "real ?n \<le> \<bar>x\<bar>" using True by simp
  finally have "(2::real) ^ (floorlog 2 ?n - 1) \<le> \<bar>x\<bar>" .
  moreover have "binary_exponent x = int (floorlog 2 ?n - 1)"
    using True fpos by (simp add: binary_exponent_def)
  ultimately show ?thesis by simp
next
  case False
  then have lt: "\<bar>x\<bar> < 1" by simp
  have pos: "0 < \<bar>x\<bar>" using assms by simp
  let ?c = "\<lceil>1 / \<bar>x\<bar>\<rceil>"
  let ?m = "nat ?c - 1"
  let ?L = "floorlog 2 ?m"
  have "1 < 1 / \<bar>x\<bar>" using lt pos by simp
  then have c2: "2 \<le> ?c" by (simp add: le_ceiling_iff)
  then have m: "0 < ?m" by linarith
  from floorlog_bounds [of ?m 2] m have "?m < 2 ^ ?L" by simp
  then have "nat ?c \<le> 2 ^ ?L" by linarith
  then have "real (nat ?c) \<le> 2 ^ ?L"
    by (metis of_nat_le_iff of_nat_numeral of_nat_power)
  moreover have "1 / \<bar>x\<bar> \<le> real (nat ?c)" using c2 by (simp add: le_of_int_ceiling)
  ultimately have "1 / \<bar>x\<bar> \<le> 2 ^ ?L" by linarith
  then have "1 \<le> 2 ^ ?L * \<bar>x\<bar>" using pos by (simp add: field_simps)
  then have "1 / 2 ^ ?L \<le> \<bar>x\<bar>" by (simp add: field_simps)
  moreover have "binary_exponent x = - int ?L" using False by (simp add: binary_exponent_def)
  ultimately show ?thesis by (simp add: power_int_minus_divide)
qed

lemma binary_exponent_less:
  assumes "x \<noteq> 0" "\<bar>x\<bar> < 2 powi k"
  shows "binary_exponent x < k"
proof (rule ccontr)
  assume "\<not> binary_exponent x < k"
  then have "k \<le> binary_exponent x" by simp
  then have "(2::real) powi k \<le> 2 powi binary_exponent x"
    by (intro power_int_increasing) simp_all
  with binary_exponent_lower [OF assms(1)] assms(2) show False by linarith
qed

lemma fl_quantum:
  assumes "x \<noteq> 0"
  shows "\<bar>fl x - x\<bar> \<le> 2 powi (max (binary_exponent x) (- 1022) - 52) / 2"
proof -
  let ?q = "(2::real) powi (max (binary_exponent x) (- 1022) - 52)"
  have q: "0 < ?q" by simp
  have "fl x - x = (of_int (round_half_even (x / ?q)) - x / ?q) * ?q"
    using assms q by (simp add: fl_def Let_def field_simps)
  then have "\<bar>fl x - x\<bar> = \<bar>of_int (round_half_even (x / ?q)) - x / ?q\<bar> * ?q"
    using q by (simp add: abs_mult)
  also have "\<dots> \<le> (1 / 2) * ?q"
    using q by (intro mult_right_mono round_half_even_close) simp
  finally show ?thesis by simp
qed

lemma fl_error:
  assumes "\<bar>x\<bar> \<le> 1024"
  shows "\<bar>fl x - x\<bar> \<le> 1 / 2 ^ 43"
proof (cases "x = 0")
  case True
  then show ?thesis by (simp add: fl_def)
next
  case False
  have "\<bar>x\<bar> < 2 powi 11" using assms by simp
  with False have "binary_exponent x < 11" by (rule binary_exponent_less)
  then have "max (binary_exponent x) (- 1022) - 52 \<le> - 42" by simp
  then have "(2::real) powi (max (binary_exponent x) (- 1022) - 52) \<le> 2 powi (- 42)"
    by (intro power_int_increasing) simp_all
  with fl_quantum [OF False] have "\<bar>fl x - x\<bar> \<le> 2 powi (- 42) / 2" by linarith
  then show ?thesis by (simp add: power_int_minus_divide)
qed

lemma fl_exact:
  assumes x: "x = of_int m * 2 powi j" and m: "\<bar>m\<bar> < 2 ^ 53" and j: "- 1074 \<le> j"
  shows "fl x = x"
proof (cases "x = 0")
  case True
  then show ?thesis by (simp add: fl_def)
next
  case False
  let ?e = "max (binary_exponent x) (- 1022)"
  have "\<bar>x\<bar> = \<bar>of_int m\<bar> * 2 powi j" by (simp add: x abs_mult)
  also have "\<dots> < 2 ^ 53 * 2 powi j"
  proof -
    have "\<bar>real_of_int m\<bar> < 2 ^ 53" using m by (metis of_int_abs of_int_less_numeral_power_cancel_iff)
    then show ?thesis by (intro mult_strict_right_mono) simp_all
  qed
  also have "\<dots> = 2 powi (53 + j)" by (simp add: power_int_add)
  finally have "binary_exponent x < 53 + j" using False by (intro binary_exponent_less)
  with j have e: "?e - 52 \<le> j" by simp
  define d where "d = nat (j - (?e - 52))"
  have jd: "j = (?e - 52) + int d" using e by (simp add: d_def)
  have "x / 2 powi (?e - 52) = of_int m * 2 ^ d"
    by (subst x, subst jd, simp add: power_int_add)
  also have "\<dots> = of_int (m * 2 ^ d)" by simp
  finally have "round_half_even (x / 2 powi (?e - 52)) = m * 2 ^ d"
    by (simp only: round_half_even_of_int)
  then have "fl x = of_int (m * 2 ^ d) * 2 powi (?e - 52)"
    using False by (simp add: fl_def Let_def)
  also have "\<dots> = of_int m * 2 powi (int d + (?e - 52))"
    by (simp add: power_int_add)
  also have "\<dots> = x" using jd by (simp add: x add.commute)
  finally show ?thesis .
qed


text \<open>The exponent is the only one whose powers of two bracket the magnitude.\<close>

lemma binary_exponent_upper:
  assumes "x \<noteq> 0"
  shows "\<bar>x\<bar> < 2 powi (binary_exponent x + 1)"
proof (cases "1 \<le> \<bar>x\<bar>")
  case True
  let ?n = "nat \<lfloor>\<bar>x\<bar>\<rfloor>"
  have n: "0 < ?n" using True by simp
  have fpos: "0 < floorlog 2 ?n" using n by (simp add: floorlog_def)
  from floorlog_bounds [of ?n 2] n have "?n < 2 ^ floorlog 2 ?n" by simp
  then have "?n + 1 \<le> 2 ^ floorlog 2 ?n" by linarith
  then have "real (?n + 1) \<le> 2 ^ floorlog 2 ?n"
    by (metis of_nat_le_iff of_nat_numeral of_nat_power)
  moreover have "\<bar>x\<bar> < real (?n + 1)" using True by simp linarith
  ultimately have "\<bar>x\<bar> < 2 ^ floorlog 2 ?n" by linarith
  moreover have "binary_exponent x + 1 = int (floorlog 2 ?n)"
    using True fpos by (simp add: binary_exponent_def)
  ultimately show ?thesis by simp
next
  case False
  then have lt: "\<bar>x\<bar> < 1" by simp
  have pos: "0 < \<bar>x\<bar>" using assms by simp
  let ?c = "\<lceil>1 / \<bar>x\<bar>\<rceil>"
  let ?m = "nat ?c - 1"
  let ?L = "floorlog 2 ?m"
  have "1 < 1 / \<bar>x\<bar>" using lt pos by simp
  then have c2: "2 \<le> ?c" by (simp add: le_ceiling_iff)
  then have m: "0 < ?m" by linarith
  have Lpos: "0 < ?L" using m by (simp add: floorlog_def)
  from floorlog_bounds [of ?m 2] m have "2 ^ (?L - 1) \<le> ?m" by simp
  then have "(2::real) ^ (?L - 1) \<le> real ?m"
    by (metis of_nat_le_iff of_nat_numeral of_nat_power)
  moreover have "real ?m < 1 / \<bar>x\<bar>"
  proof -
    have "int ?m = ?c - 1" using c2 by arith
    then have "real_of_int (int ?m) = of_int (?c - 1)" by (simp only:)
    then have "real ?m = of_int ?c - 1" by simp
    then show ?thesis by linarith
  qed
  ultimately have "2 ^ (?L - 1) < 1 / \<bar>x\<bar>" by linarith
  then have "\<bar>x\<bar> * 2 ^ (?L - 1) < 1" using pos by (simp add: field_simps)
  then have "\<bar>x\<bar> < 1 / 2 ^ (?L - 1)" by (simp add: field_simps)
  moreover have "binary_exponent x + 1 = - int (?L - 1)"
    using False Lpos by (simp add: binary_exponent_def)
  ultimately show ?thesis by (simp add: power_int_minus_divide)
qed

lemma binary_exponent_eq:
  assumes "2 powi e \<le> \<bar>x\<bar>" "\<bar>x\<bar> < 2 powi (e + 1)"
  shows "binary_exponent x = e"
proof -
  have "(0::real) < 2 powi e" by simp
  then have "0 < \<bar>x\<bar>" using assms(1) by (rule less_le_trans)
  then have nz: "x \<noteq> 0" by simp
  have "binary_exponent x < e + 1" using nz assms(2) by (rule binary_exponent_less)
  moreover have "e < binary_exponent x + 1"
  proof (rule ccontr)
    assume "\<not> e < binary_exponent x + 1"
    then have "binary_exponent x + 1 \<le> e" by simp
    then have "(2::real) powi (binary_exponent x + 1) \<le> 2 powi e"
      by (intro power_int_increasing) simp_all
    with binary_exponent_upper [OF nz] assms(1) show False by linarith
  qed
  ultimately show ?thesis by simp
qed

text \<open>Doubles with a short mantissa, and \<open>fl\<close> computed from a bracketing exponent.\<close>

lemma fl_dyadic:
  assumes m: "\<bar>m\<bar> < 2 ^ 53" and n: "n \<le> 1074"
  shows "fl (real_of_int m / 2 ^ n) = real_of_int m / 2 ^ n"
proof -
  have "real_of_int m / 2 ^ n = real_of_int m * 2 powi (- int n)"
    by (simp add: power_int_minus_divide)
  moreover from n have "- 1074 \<le> - int n" by simp
  ultimately show ?thesis using m by (intro fl_exact) auto
qed

lemma fl_sixteenths: "\<bar>m\<bar> < 2 ^ 53 \<Longrightarrow> fl (real_of_int m / 16) = real_of_int m / 16"
  using fl_dyadic [of m 4] by simp

lemma fl_eval:
  assumes "2 powi e \<le> \<bar>x\<bar>" "\<bar>x\<bar> < 2 powi (e + 1)" "- 1022 \<le> e"
    and "round_half_even (x / 2 powi (e - 52)) = n"
  shows "fl x = of_int n * 2 powi (e - 52)"
proof -
  have e: "binary_exponent x = e" using assms(1,2) by (rule binary_exponent_eq)
  have "(0::real) < 2 powi e" by simp
  then have "0 < \<bar>x\<bar>" using assms(1) by (rule less_le_trans)
  then have "x \<noteq> 0" by simp
  then show ?thesis using assms(3,4) by (simp add: fl_def Let_def e max_def)
qed

lemma fl_near:
  assumes "\<bar>x - t\<bar> \<le> d" "\<bar>x\<bar> \<le> 1024"
  shows "\<bar>fl x - t\<bar> \<le> d + 1 / 2 ^ 43"
  using fl_error [OF assms(2)] assms(1) by linarith

lemma scaled_error:
  assumes "\<bar>b - c\<bar> \<le> d" "y \<le> (5::nat)"
  shows "\<bar>b * real y - c * real y\<bar> \<le> 5 * d"
proof -
  have "\<bar>b * real y - c * real y\<bar> = \<bar>b - c\<bar> * real y"
    by (simp add: abs_mult left_diff_distrib [symmetric])
  also have "\<dots> \<le> d * 5"
    using assms by (intro mult_mono) simp_all
  finally show ?thesis by simp
qed

lemma py_round_near:
  assumes "\<bar>c - of_int n / 100\<bar> < 1 / 200"
  shows "py_round c 2 = of_int n / 100"
proof -
  have e: "c * 100 - of_int n = (c - of_int n / 100) * 100" by (simp add: algebra_simps)
  have "\<bar>c * 100 - of_int n\<bar> = \<bar>c - of_int n / 100\<bar> * 100"
    unfolding e by (simp only: abs_mult)
  with assms have "\<bar>c * 100 - of_int n\<bar> < 1 / 2" by simp
  then have "round_half_even (c * 100) = n" by (rule round_half_even_near)
  then show ?thesis by (simp add: py_round_def)
qed

section \<open>Properties of the timeline projector\<close>

lemma timeline_loop_map:
  "timeline_loop ap ca cs yrs acc = acc @ map (timeline_step ap ca cs) yrs"
  by (induction yrs arbitrary: acc) simp_all

lemma timeline_entries:
  "calculate_progression_timeline ap ca cs = map (timeline_step ap ca cs) [1, 2, 3, 5]"
  by (simp add: calculate_progression_timeline_def timeline_loop_map)

text \<open>
  C7, as stated, fails: every projected severity is rounded to two decimals. For a
  current severity of 1.0625 D (eyes at -1.0 and -1.125) and an annual progression
  of 0.5, all of them doubles, the first entry reports 1.56, not
  1.0625 + 0.5 = 1.5625.
\<close>

theorem timeline_rounding_counterexample:
  "severity_with_treatment (hd (calculate_progression_timeline 0.5 9 1.0625)) = 1.56
   \<and> severity_with_treatment (hd (calculate_progression_timeline 0.5 9 1.0625))
       \<noteq> 1.0625 + 0.5 * 1"
proof -
  have a: "fl (1 / 2) = 1 / 2" using fl_sixteenths [of 8] by simp
  have b: "fl (17 / 16) = 17 / 16" using fl_sixteenths [of 17] by simp
  have c: "fl (25 / 16) = 25 / 16" using fl_sixteenths [of 25] by simp
  have "fl (17 / 16) + fl (fl (1 / 2) * 1) = (25 / 16 :: real)" by (simp add: a b)
  then have d: "fl (fl (17 / 16) + fl (fl (1 / 2) * 1)) = 25 / 16" by (simp only: c)
  have "severity_with_treatment (hd (calculate_progression_timeline 0.5 9 1.0625))
          = py_round (fl (fl (17 / 16) + fl (fl (1 / 2) * 1))) 2"
    by (simp add: timeline_entries timeline_step_def Let_def fadd_def fmul_def)
  also have "\<dots> = py_round (25 / 16) 2" by (simp only: d)
  also have "\<dots> = 1.56"
    by (simp add: py_round_def round_half_even_def Let_def)
  finally show ?thesis by simp
qed

text \<open>
  The rounding sees doubles: with an annual progression of 0.55 and a current
  severity of 2.125 the sum of the two doubles lies exactly between two doubles
  around 2.675 and goes to the lower one, so the first entry reports 2.67 with
  treatment, 3.5 without and 0.83 saved.
\<close>

lemma timeline_tie_example:
  "severity_with_treatment (hd (calculate_progression_timeline 0.55 10 2.125)) = 2.67
   \<and> severity_without_treatment (hd (calculate_progression_timeline 0.55 10 2.125)) = 3.5
   \<and> saved_diopters (hd (calculate_progression_timeline 0.55 10 2.125)) = 0.83"
proof -
  define ap :: real where "ap = 4953959590107546 / 2 ^ 53"
  define ps :: real where "ps = 6023564501608038 / 2 ^ 51"
  define d4 :: real where "d4 = 7205759403792794 / 2 ^ 54"
  have ap: "fl (11 / 20) = ap"
    unfolding ap_def
    by (rule trans [OF fl_eval [where e = "- 1" and n = 4953959590107546]])
      (simp_all add: round_half_even_def)
  have cs: "fl (17 / 8) = 17 / 8" using fl_dyadic [of 17 3] by simp
  have p: "fl ap = ap" unfolding ap_def using fl_dyadic [of 4953959590107546 53] by simp
  have s: "fl (17 / 8 + ap) = ps"
    unfolding ap_def ps_def
    by (rule trans [OF fl_eval [where e = 1 and n = 6023564501608038]])
      (simp_all add: round_half_even_def)
  have f4: "fl (2 / 5) = d4"
    unfolding d4_def
    by (rule trans [OF fl_eval [where e = "- 2" and n = 7205759403792794]])
      (simp_all add: round_half_even_def)
  have r: "fl (ap / d4) = 11 / 8"
    unfolding ap_def d4_def
    by (rule trans [OF fl_eval [where e = 0 and n = 6192449487634432]])
      (simp_all add: round_half_even_def)
  have pr: "fl (11 / 8) = (11 / 8 :: real)" using fl_dyadic [of 11 3] by simp
  have pw: "fl (7 / 2) = (7 / 2 :: real)" using fl_dyadic [of 7 1] by simp
  have sv: "fl (7 / 2 - ps) = 7 / 2 - ps"
    unfolding ps_def using fl_dyadic [of 1857734846290330 51] by simp
  have w: "severity_with_treatment (hd (calculate_progression_timeline 0.55 10 2.125))
             = py_round ps 2"
    by (simp add: timeline_entries timeline_step_def Let_def fadd_def fmul_def ap cs p s)
  have wo: "severity_without_treatment (hd (calculate_progression_timeline 0.55 10 2.125))
             = py_round (7 / 2) 2"
    by (simp add: timeline_entries timeline_step_def Let_def fadd_def fmul_def fdiv_def
        ap cs f4 r pr pw)
  have sd: "saved_diopters (hd (calculate_progression_timeline 0.55 10 2.125))
             = py_round (7 / 2 - ps) 2"
    by (simp add: timeline_entries timeline_step_def Let_def fadd_def fmul_def fdiv_def fsub_def
        ap cs p s f4 r pr pw sv)
  have "py_round ps 2 = 2.67" "py_round (7 / 2) 2 = 3.5" "py_round (7 / 2 - ps) 2 = 0.83"
    by (simp_all add: ps_def py_round_def round_half_even_def)
  with w wo sd show ?thesis by simp
qed

text \<open>
  For an annual progression of 0.6 and a severity of whole hundredths up to 100 D
  the errors of the double operations stay far below half a hundredth.
\<close>

lemma with_treatment_hundredths:
  assumes k: "\<bar>k\<bar> \<le> 10000" and y: "y \<le> (5::nat)"
  shows "py_round (fadd (fl (of_int k / 100)) (fmul (fl 0.6) (real y))) 2
           = of_int (k + 60 * int y) / 100"
proof -
  define dl :: real where "dl = 1 / 2 ^ 43"
  have dl: "0 < dl" "dl < 1 / 1000000" by (simp_all add: dl_def)
  define a where "a = fl (of_int k / 100)"
  define b0 where "b0 = fl 0.6"
  define b where "b = fl (b0 * real y)"
  define c where "c = fl (a + b)"
  have kr: "\<bar>real_of_int k\<bar> \<le> 10000" using k by (metis of_int_abs of_int_le_numeral_iff)
  have yr: "0 \<le> real y" "real y \<le> 5" using y by simp_all
  have a: "\<bar>a - of_int k / 100\<bar> \<le> dl"
    unfolding a_def dl_def using kr by (intro fl_error) simp
  have b0: "\<bar>b0 - 0.6\<bar> \<le> dl" unfolding b0_def dl_def by (intro fl_error) simp
  have p: "\<bar>b0 * real y - 0.6 * real y\<bar> \<le> 5 * dl" using b0 y by (rule scaled_error)
  have "\<bar>b - 0.6 * real y\<bar> \<le> 5 * dl + 1 / 2 ^ 43"
    unfolding b_def using p yr dl by (intro fl_near) (simp, linarith)
  then have b: "\<bar>b - 0.6 * real y\<bar> \<le> 6 * dl" by (simp add: dl_def)
  have s: "\<bar>(a + b) - (of_int k / 100 + 0.6 * real y)\<bar> \<le> 7 * dl" using a b by linarith
  have "\<bar>c - (of_int k / 100 + 0.6 * real y)\<bar> \<le> 7 * dl + 1 / 2 ^ 43"
    unfolding c_def using s kr yr dl by (intro fl_near) (simp, linarith)
  then have "\<bar>c - (of_int k / 100 + 0.6 * real y)\<bar> \<le> 8 * dl" by (simp add: dl_def)
  moreover have "of_int k / 100 + 0.6 * real y = of_int (k + 60 * int y) / 100" by simp
  ultimately have "\<bar>c - of_int (k + 60 * int y) / 100\<bar> < 1 / 200" using dl by linarith
  then have "py_round c 2 = of_int (k + 60 * int y) / 100" by (rule py_round_near)
  then show ?thesis by (simp add: c_def a_def b_def b0_def fadd_def fmul_def)
qed

lemma without_treatment_hundredths:
  assumes k: "\<bar>k\<bar> \<le> 10000" and y: "y \<le> (5::nat)"
  shows "py_round (fadd (fl (of_int k / 100)) (fmul (fdiv (fl 0.6) (fl 0.4)) (real y))) 2
           = of_int (k + 150 * int y) / 100"
proof -
  define dl :: real where "dl = 1 / 2 ^ 43"
  have dl: "0 < dl" "dl < 1 / 1000000" by (simp_all add: dl_def)
  define a where "a = fl (of_int k / 100)"
  define b0 where "b0 = fl 0.6"
  define d4 where "d4 = fl 0.4"
  define r where "r = fl (b0 / d4)"
  define b where "b = fl (r * real y)"
  define c where "c = fl (a + b)"
  have kr: "\<bar>real_of_int k\<bar> \<le> 10000" using k by (metis of_int_abs of_int_le_numeral_iff)
  have yr: "0 \<le> real y" "real y \<le> 5" using y by simp_all
  have a: "\<bar>a - of_int k / 100\<bar> \<le> dl"
    unfolding a_def dl_def using kr by (intro fl_error) simp
  have b0: "\<bar>b0 - 0.6\<bar> \<le> dl" unfolding b0_def dl_def by (intro fl_error) simp
  have d4: "\<bar>d4 - 0.4\<bar> \<le> dl" unfolding d4_def dl_def by (intro fl_error) simp
  have d4pos: "1 / 4 \<le> d4" using d4 dl by linarith
  have num: "\<bar>b0 - 3 / 2 * d4\<bar> \<le> 5 / 2 * dl" using b0 d4 by linarith
  have "b0 / d4 - 3 / 2 = (b0 - 3 / 2 * d4) / d4" using d4pos by (simp add: field_simps)
  then have "\<bar>b0 / d4 - 3 / 2\<bar> = \<bar>b0 - 3 / 2 * d4\<bar> / d4" using d4pos by (simp add: abs_divide)
  also have "\<dots> \<le> (5 / 2 * dl) / (1 / 4)"
    using num d4pos dl by (intro frac_le) simp_all
  finally have q: "\<bar>b0 / d4 - 3 / 2\<bar> \<le> 10 * dl" by simp
  have "\<bar>r - 3 / 2\<bar> \<le> 10 * dl + 1 / 2 ^ 43"
    unfolding r_def using q dl by (intro fl_near) (simp, linarith)
  then have r: "\<bar>r - 3 / 2\<bar> \<le> 11 * dl" by (simp add: dl_def)
  have p: "\<bar>r * real y - 3 / 2 * real y\<bar> \<le> 5 * (11 * dl)" using r y by (rule scaled_error)
  have "\<bar>b - 3 / 2 * real y\<bar> \<le> 5 * (11 * dl) + 1 / 2 ^ 43"
    unfolding b_def using p yr dl by (intro fl_near) (simp, linarith)
  then have b: "\<bar>b - 3 / 2 * real y\<bar> \<le> 56 * dl" by (simp add: dl_def)
  have s: "\<bar>(a + b) - (of_int k / 100 + 3 / 2 * real y)\<bar> \<le> 57 * dl" using a b by linarith
  have "\<bar>c - (of_int k / 100 + 3 / 2 * real y)\<bar> \<le> 57 * dl + 1 / 2 ^ 43"
    unfolding c_def using s kr yr dl by (intro fl_near) (simp, linarith)
  then have "\<bar>c - (of_int k / 100 + 3 / 2 * real y)\<bar> \<le> 58 * dl" by (simp add: dl_def)
  moreover have "of_int k / 100 + 3 / 2 * real y = of_int (k + 150 * int y) / 100" by simp
  ultimately have "\<bar>c - of_int (k + 150 * int y) / 100\<bar> < 1 / 200" using dl by linarith
  then have "py_round c 2 = of_int (k + 150 * int y) / 100" by (rule py_round_near)
  then show ?thesis by (simp add: c_def a_def b_def r_def b0_def d4_def fadd_def fmul_def fdiv_def)
qed


text \<open>
  C7, amended. The projector returns four entries, for the years 1, 2, 3 and 5.
  In double arithmetic, the severity with treatment is
  current_severity + annual_progression * year rounded to two decimals, the
  severity without treatment is current_severity + (annual_progression / 0.4) * year
  rounded to two decimals, and the saved diopters are the difference of the two
  unrounded projections, rounded to two decimals. For annual_progression = 0.6
  and a current severity of whole hundredths, at most 100 D in magnitude, the
  with-treatment values are current + 0.6, 1.2, 1.8 and 3.0, and the
  without-treatment values are current + 1.5 * year.
\<close>

theorem timeline_projection:
  "map year (calculate_progression_timeline ap ca cs) = [1, 2, 3, 5]
   \<and> map severity_with_treatment (calculate_progression_timeline ap ca cs) =
       map (\<lambda>y. py_round (fadd (fl cs) (fmul (fl ap) (real y))) 2) [1, 2, 3, 5]
   \<and> map severity_without_treatment (calculate_progression_timeline ap ca cs) =
       map (\<lambda>y. py_round (fadd (fl cs) (fmul (fdiv (fl ap) (fl 0.4)) (real y))) 2) [1, 2, 3, 5]
   \<and> map saved_diopters (calculate_progression_timeline ap ca cs) =
       map (\<lambda>y. py_round (fsub (fadd (fl cs) (fmul (fdiv (fl ap) (fl 0.4)) (real y)))
                                (fadd (fl cs) (fmul (fl ap) (real y)))) 2) [1, 2, 3, 5]
   \<and> (\<bar>k\<bar> \<le> 10000 \<longrightarrow>
        map severity_with_treatment (calculate_progression_timeline 0.6 ca (of_int k / 100)) =
          [of_int k / 100 + 0.6, of_int k / 100 + 1.2, of_int k / 100 + 1.8, of_int k / 100 + 3.0]
      \<and> map severity_without_treatment (calculate_progression_timeline 0.6 ca (of_int k / 100)) =
          map (\<lambda>y. of_int k / 100 + 1.5 * real y) [1, 2, 3, 5])"
proof (intro conjI impI)
  show "map year (calculate_progression_timeline ap ca cs) = [1, 2, 3, 5]"
    by (simp add: timeline_entries timeline_step_def Let_def)
  show "map severity_with_treatment (calculate_progression_timeline ap ca cs) =
       map (\<lambda>y. py_round (fadd (fl cs) (fmul (fl ap) (real y))) 2) [1, 2, 3, 5]"
    by (simp add: timeline_entries timeline_step_def Let_def)
  show "map severity_without_treatment (calculate_progression_timeline ap ca cs) =
       map (\<lambda>y. py_round (fadd (fl cs) (fmul (fdiv (fl ap) (fl 0.4)) (real y))) 2) [1, 2, 3, 5]"
    by (simp add: timeline_entries timeline_step_def Let_def)
  show "map saved_diopters (calculate_progression_timeline ap ca cs) =
       map (\<lambda>y. py_round (fsub (fadd (fl cs) (fmul (fdiv (fl ap) (fl 0.4)) (real y)))
                                (fadd (fl cs) (fmul (fl ap) (real y)))) 2) [1, 2, 3, 5]"
    by (simp add: timeline_entries timeline_step_def Let_def)
next
  assume k: "\<bar>k\<bar> \<le> 10000"
  have w: "severity_with_treatment (timeline_step 0.6 ca (of_int k / 100) y)
             = of_int (k + 60 * int y) / 100" if "y \<le> 5" for y
    unfolding timeline_step_def Let_def
    by (simp only: timeline_entry.simps with_treatment_hundredths [OF k that])
  show "map severity_with_treatment (calculate_progression_timeline 0.6 ca (of_int k / 100)) =
       [of_int k / 100 + 0.6, of_int k / 100 + 1.2, of_int k / 100 + 1.8, of_int k / 100 + 3.0]"
    using w [of 1] w [of 2] w [of 3] w [of 5] by (simp add: timeline_entries)
  have wo: "severity_without_treatment (timeline_step 0.6 ca (of_int k / 100) y)
             = of_int (k + 150 * int y) / 100" if "y \<le> 5" for y
    unfolding timeline_step_def Let_def
    by (simp only: timeline_entry.simps without_treatment_hundredths [OF k that])
  show "map severity_without_treatment (calculate_progression_timeline 0.6 ca (of_int k / 100)) =
       map (\<lambda>y. of_int k / 100 + 1.5 * real y) [1, 2, 3, 5]"
    using wo [of 1] wo [of 2] wo [of 3] wo [of 5] by (simp add: timeline_entries)
qed

theorem timeline_projection_witness:
  "\<bar>200 :: int\<bar> \<le> 10000
   \<and> map severity_with_treatment (calculate_progression_timeline 0.6 9 2) = [2.6, 3.2, 3.8, 5]
   \<and> map severity_without_treatment (calculate_progression_timeline 0.6 9 2) = [3.5, 5, 6.5, 9.5]"
proof -
  have h: "\<bar>200 :: int\<bar> \<le> 10000" by simp
  from timeline_projection [where ca = 9 and k = 200 and ap = 0 and cs = 0] h
  have "map severity_with_treatment (calculate_progression_timeline 0.6 9 (of_int 200 / 100)) =
          [of_int 200 / 100 + 0.6, of_int 200 / 100 + 1.2, of_int 200 / 100 + 1.8,
           of_int 200 / 100 + 3.0]
      \<and> map severity_without_treatment (calculate_progression_timeline 0.6 9 (of_int 200 / 100)) =
          map (\<lambda>y. of_int 200 / 100 + 1.5 * real y) [1, 2, 3, 5]"
    by blast
  then show ?thesis by simp
qed

section \<open>Properties of the prediction model\<close>

lemma round_half_even_lower: "of_int n \<le> y \<Longrightarrow> n \<le> round_half_even y"
proof -
  assume "of_int n \<le> y"
  then have "n \<le> \<lfloor>y\<rfloor>" by (simp add: le_floor_iff)
  then show ?thesis by (simp add: round_half_even_def Let_def)
qed

lemma round_half_even_upper: "y \<le> of_int n \<Longrightarrow> round_half_even y \<le> n"
proof -
  assume h: "y \<le> of_int n"
  then have le: "\<lfloor>y\<rfloor> \<le> n" by (simp add: floor_le_iff) 
  show ?thesis
  proof (cases "\<lfloor>y\<rfloor> = n")
    case True
    with h have "y - of_int \<lfloor>y\<rfloor> \<le> 0" by simp
    then show ?thesis using True by (simp add: round_half_even_def Let_def)
  next
    case False
    with le have "\<lfloor>y\<rfloor> + 1 \<le> n" by simp
    then show ?thesis by (simp add: round_half_even_def Let_def)
  qed
qed

lemma py_round_bounds:
  assumes "0 \<le> x" "x \<le> 2"
  shows "0 \<le> py_round x 2 \<and> py_round x 2 \<le> 2"
proof -
  have "of_int 0 \<le> x * 10 ^ 2" using assms by simp
  then have a: "0 \<le> round_half_even (x * 10 ^ 2)" by (rule round_half_even_lower)
  have "x * 10 ^ 2 \<le> of_int 200" using assms by simp
  then have b: "round_half_even (x * 10 ^ 2) \<le> 200" by (rule round_half_even_upper)
  from a b show ?thesis by (simp add: py_round_def)
qed

lemma py_index_Inr: "py_index xs (int i) = Inr v \<Longrightarrow> i < length xs \<and> v = xs ! i"
  by (auto simp: py_index_def split: if_splits)

lemma model_predict_fitted:
  assumes "scaler self = Fitted tr" "progression_classifier self = Some clf"
    "progression_regressor self = Some reg"
  shows "model_predict self fs =
     bind_res (py_index risk_labels (clf_predict clf (tr fs))) (\<lambda>label.
     bind_res (py_index (predict_proba clf (tr fs)) 0) (\<lambda>p0.
     bind_res (py_index (predict_proba clf (tr fs)) 1) (\<lambda>p1.
     bind_res (py_index (predict_proba clf (tr fs)) 2) (\<lambda>p2.
       Inr \<lparr>risk_category = label,
            risk_score = clf_predict clf (tr fs),
            risk_probabilities = \<lparr>low = p0, medium = p1, high = p2\<rparr>,
            estimated_progression = py_round (reg (tr fs)) 2,
            stellest_effectiveness = calculate_stellest_benefit fs (reg (tr fs))\<rparr>))))"
  using assms by (simp add: model_predict_def Let_def)

lemma model_predict_result:
  assumes "scaler self = Fitted tr" "progression_classifier self = Some clf"
    "progression_regressor self = Some reg" "model_predict self fs = Inr r"
  shows "py_index risk_labels (clf_predict clf (tr fs)) = Inr (risk_category r)
       \<and> 3 \<le> length (predict_proba clf (tr fs))
       \<and> low (risk_probabilities r) = predict_proba clf (tr fs) ! 0
       \<and> medium (risk_probabilities r) = predict_proba clf (tr fs) ! 1
       \<and> high (risk_probabilities r) = predict_proba clf (tr fs) ! 2
       \<and> estimated_progression r = py_round (reg (tr fs)) 2"
proof -
  let ?P = "predict_proba clf (tr fs)"
  from assms(4) obtain label p0 p1 p2 where
    l: "py_index risk_labels (clf_predict clf (tr fs)) = Inr label" and
    i0: "py_index ?P (int 0) = Inr p0" and i1: "py_index ?P (int 1) = Inr p1" and
    i2: "py_index ?P (int 2) = Inr p2" and
    r: "r = \<lparr>risk_category = label,
            risk_score = clf_predict clf (tr fs),
            risk_probabilities = \<lparr>low = p0, medium = p1, high = p2\<rparr>,
            estimated_progression = py_round (reg (tr fs)) 2,
            stellest_effectiveness = calculate_stellest_benefit fs (reg (tr fs))\<rparr>"
    unfolding model_predict_fitted [OF assms(1-3)]
    by (auto simp: bind_res_def split: sum.splits)
  from py_index_Inr [OF i0] py_index_Inr [OF i1] py_index_Inr [OF i2] l r
  show ?thesis by simp
qed


lemma three_classes:
  assumes "distinct xs" "set xs \<subseteq> {0, 1, 2 :: int}" "3 \<le> length xs"
  shows "set xs = {0, 1, 2}"
proof -
  have "card (set xs) = length xs" using assms(1) by (rule distinct_card)
  then have "card {0, 1, 2 :: int} \<le> card (set xs)" using assms(3) by simp
  with assms(2) show ?thesis by (intro card_seteq) simp_all
qed

text \<open>
  C10. With a fitted scaler, classifier and regressor, a result of \<^verbatim>\<open>predict\<close>
  carries the classifier's probabilities at positions 0, 1 and 2 as low, medium
  and high and the label that the predicted category selects from the three
  labels; so the probability vector has at least three entries, and a classifier
  whose classes are distinct labels among 0, 1, 2, one probability each, was
  fitted on all three. With fewer than three probabilities (and a category
  among 0, 1, 2) the call ends in an IndexError; with three and such a category
  it returns a result.
\<close>

theorem predict_needs_three_classes:
  assumes "scaler self = Fitted tr" "progression_classifier self = Some clf"
    "progression_regressor self = Some reg"
  shows "(model_predict self fs = Inr r \<longrightarrow>
            low (risk_probabilities r) = predict_proba clf (tr fs) ! 0
          \<and> medium (risk_probabilities r) = predict_proba clf (tr fs) ! 1
          \<and> high (risk_probabilities r) = predict_proba clf (tr fs) ! 2
          \<and> py_index risk_labels (clf_predict clf (tr fs)) = Inr (risk_category r)
          \<and> 3 \<le> length (predict_proba clf (tr fs)))
       \<and> (model_predict self fs = Inr r \<longrightarrow>
            length (predict_proba clf (tr fs)) = length (classes clf) \<longrightarrow>
            distinct (classes clf) \<longrightarrow> set (classes clf) \<subseteq> {0, 1, 2} \<longrightarrow>
            set (classes clf) = {0, 1, 2})
       \<and> (length (predict_proba clf (tr fs)) < 3 \<longrightarrow> clf_predict clf (tr fs) \<in> {0, 1, 2} \<longrightarrow>
            model_predict self fs = Inl IndexError)
       \<and> (3 \<le> length (predict_proba clf (tr fs)) \<longrightarrow> clf_predict clf (tr fs) \<in> {0, 1, 2} \<longrightarrow>
            (\<exists>r'. model_predict self fs = Inr r'))"
proof (intro conjI impI)
  assume res: "model_predict self fs = Inr r"
  note R = model_predict_result [OF assms res]
  from R show "low (risk_probabilities r) = predict_proba clf (tr fs) ! 0" by simp
  from R show "medium (risk_probabilities r) = predict_proba clf (tr fs) ! 1" by simp
  from R show "high (risk_probabilities r) = predict_proba clf (tr fs) ! 2" by simp
  from R show "py_index risk_labels (clf_predict clf (tr fs)) = Inr (risk_category r)" by simp
  from R show "3 \<le> length (predict_proba clf (tr fs))" by simp
next
  assume res: "model_predict self fs = Inr r"
    and len: "length (predict_proba clf (tr fs)) = length (classes clf)"
    and d: "distinct (classes clf)" and sub: "set (classes clf) \<subseteq> {0, 1, 2}"
  from model_predict_result [OF assms res] len have "3 \<le> length (classes clf)" by simp
  with d sub show "set (classes clf) = {0, 1, 2}" by (rule three_classes)
next
  assume short: "length (predict_proba clf (tr fs)) < 3"
    and cat: "clf_predict clf (tr fs) \<in> {0, 1, 2}"
  from cat obtain lbl where l: "py_index risk_labels (clf_predict clf (tr fs)) = Inr lbl"
    by (auto simp: py_index_def risk_labels_def)
  have "py_index (predict_proba clf (tr fs)) 0 = Inl IndexError
        \<or> py_index (predict_proba clf (tr fs)) 1 = Inl IndexError
        \<or> py_index (predict_proba clf (tr fs)) 2 = Inl IndexError"
    using short by (auto simp: py_index_def)
  then show "model_predict self fs = Inl IndexError"
    unfolding model_predict_fitted [OF assms] using l
    by (auto simp: bind_res_def py_index_def split: sum.splits if_splits)
next
  assume long: "3 \<le> length (predict_proba clf (tr fs))"
    and cat: "clf_predict clf (tr fs) \<in> {0, 1, 2}"
  from cat obtain lbl where l: "py_index risk_labels (clf_predict clf (tr fs)) = Inr lbl"
    by (auto simp: py_index_def risk_labels_def)
  have p0: "py_index (predict_proba clf (tr fs)) 0 = Inr (predict_proba clf (tr fs) ! 0)"
    using long by (auto simp add: py_index_def)
  have p1: "py_index (predict_proba clf (tr fs)) 1 = Inr (predict_proba clf (tr fs) ! 1)"
    using long by (auto simp add: py_index_def)
  have p2: "py_index (predict_proba clf (tr fs)) 2 = Inr (predict_proba clf (tr fs) ! 2)"
    using long by (auto simp add: py_index_def)
  show "\<exists>r'. model_predict self fs = Inr r'"
    unfolding model_predict_fitted [OF assms]
    by (simp add: bind_res_def l p0 p1 p2)
qed

theorem predict_needs_three_classes_witness:
  "model_predict (fitted_with clf_two (\<lambda>X. 0.5)) features_high = Inl IndexError
   \<and> (\<exists>r. model_predict (fitted_with clf_three (\<lambda>X. 0.5)) features_high = Inr r
          \<and> low (risk_probabilities r) = 0.1 \<and> medium (risk_probabilities r) = 0.2
          \<and> high (risk_probabilities r) = 0.7 \<and> risk_category r = ''High Risk'')
   \<and> set (classes clf_three) = {0, 1, 2}"
proof -
  let ?m2 = "fitted_with clf_two (\<lambda>X. 0.5)" and ?m3 = "fitted_with clf_three (\<lambda>X. 0.5)"
  note T2 = predict_needs_three_classes [of ?m2 "\<lambda>x. x" clf_two "\<lambda>X. 0.5" features_high]
  note T3 = predict_needs_three_classes [of ?m3 "\<lambda>x. x" clf_three "\<lambda>X. 0.5" features_high]
  from T2 have short: "model_predict ?m2 features_high = Inl IndexError"
    by (simp add: fitted_with_def clf_two_def)
  from T3 obtain r where r: "model_predict ?m3 features_high = Inr r"
    by (auto simp add: fitted_with_def clf_three_def)
  from T3 [of r] r
  have "low (risk_probabilities r) = 0.1 \<and> medium (risk_probabilities r) = 0.2
        \<and> high (risk_probabilities r) = 0.7 \<and> risk_category r = ''High Risk''
        \<and> set (classes clf_three) = {0, 1, 2}"
    by (simp add: fitted_with_def clf_three_def py_index_def risk_labels_def)
  with short r show ?thesis by blast
qed

lemma estimate_progression_clamped: "estimate_progression df = Some y \<Longrightarrow> 0 \<le> y \<and> y \<le> 2"
  by (auto simp: estimate_progression_def Let_def clip_def)

text \<open>
  C2, as stated, fails in its second half: \<^verbatim>\<open>predict\<close> rounds the regressor's
  output and does not clamp it. A server whose regressor answers 3 returns a
  progression rate of 3 for the request of the end-to-end scenario.
\<close>

theorem overshoot_counterexample:
  "(case fst (api_predict (trainer_giving init_model)
                (serving (fitted_with clf_three (\<lambda>X. 3))) patient_high) of
      Inl e \<Rightarrow> False
    | Inr r \<Rightarrow> estimated_progression (prediction_part r) = 3)"
  by (simp add: api_predict_def server_load_model_def serving_def features_of_def
      screen_outdoor_ratio_of_def patient_high_def bind_res_def model_predict_def fitted_with_def
      clf_three_def Let_def py_index_def risk_labels_def py_round_def round_half_even_def)

text \<open>
  C2, amended. The compliance score computed at inference lies in [0, 1]. The
  clamp to [0, 2] is on the training label: \<^verbatim>\<open>_estimate_progression\<close> yields
  NaN or a value in [0, 2]. The rate in a returned prediction is the regressor's
  output rounded to two decimals, and lies in [0, 2] whenever that output does.
\<close>

theorem clamp_invariants:
  "0 \<le> compliance_score_of p \<and> compliance_score_of p \<le> 1
   \<and> (estimate_progression df = Some y \<longrightarrow> 0 \<le> y \<and> y \<le> 2)
   \<and> (scaler self = Fitted tr \<longrightarrow> progression_classifier self = Some clf \<longrightarrow>
       progression_regressor self = Some reg \<longrightarrow> model_predict self fs = Inr r \<longrightarrow>
         estimated_progression r = py_round (reg (tr fs)) 2
       \<and> (0 \<le> reg (tr fs) \<and> reg (tr fs) \<le> 2 \<longrightarrow>
            0 \<le> estimated_progression r \<and> estimated_progression r \<le> 2))"
proof (intro conjI impI)
  show "0 \<le> compliance_score_of p" by (simp add: compliance_score_of_def clip_def)
  show "compliance_score_of p \<le> 1" by (simp add: compliance_score_of_def clip_def)
next
  assume "estimate_progression df = Some y"
  then show "0 \<le> y" "y \<le> 2" using estimate_progression_clamped by blast+
next
  assume a: "scaler self = Fitted tr" "progression_classifier self = Some clf"
    "progression_regressor self = Some reg" "model_predict self fs = Inr r"
  from model_predict_result [OF a]
  show e: "estimated_progression r = py_round (reg (tr fs)) 2" by simp
  assume "0 \<le> reg (tr fs) \<and> reg (tr fs) \<le> 2"
  then have "0 \<le> py_round (reg (tr fs)) 2 \<and> py_round (reg (tr fs)) 2 \<le> 2"
    by (intro py_round_bounds) simp_all
  with e show "0 \<le> estimated_progression r" "estimated_progression r \<le> 2" by simp_all
qed


lemma features_of_patient_high: "features_of patient_high = Inr features_high"
  by (simp add: features_of_def screen_outdoor_ratio_of_def bind_res_def patient_high_def
      features_high_def years_since_diagnosis_of_def gender_encoded_of_def upper_def
      char_upper_def myopic_parents_encoded_of_def myopia_severity_of_def avg_spherical_of_def
      has_astigmatism_of_def avg_axial_length_of_def axial_length_abnormal_of_def
      compliance_score_of_def clip_def)

theorem clamp_invariants_witness:
  "estimate_progression row_high = Some 0.294
   \<and> (\<exists>r. model_predict (fitted_with clf_three (\<lambda>X. 0.5)) features_high = Inr r
          \<and> estimated_progression r = 0.5
          \<and> 0 \<le> estimated_progression r \<and> estimated_progression r \<le> 2)"
proof -
  let ?m = "fitted_with clf_three (\<lambda>X. 0.5)"
  obtain r where r: "model_predict ?m features_high = Inr r"
    by (simp add: model_predict_def fitted_with_def clf_three_def Let_def bind_res_def
        py_index_def risk_labels_def)
  have e: "estimate_progression row_high = Some 0.294"
    by (simp add: estimate_progression_def row_high_def Let_def nan_lt_def nan2_def clip_def)
  have h: "py_round 0.5 2 = 0.5"
    by (simp add: py_round_def round_half_even_def)
  from clamp_invariants [of patient_high row_high "0.294" ?m "\<lambda>x. x" clf_three "\<lambda>X. 0.5"
      features_high r] r e h
  show ?thesis by (simp add: fitted_with_def)
qed

section \<open>Properties of the field parsers\<close>

lemma try_except_returns: "\<exists>v. try_except body h = Inr v"
  by (cases body) (simp_all add: try_except_def)

lemma try_except_raise: "body = Inl e \<Longrightarrow> try_except body h = Inr h"
  by (simp add: try_except_def)

text \<open>
  C8. Whatever \<^verbatim>\<open>float\<close> does, each of the four parsers returns a value (a number
  or the NaN marker) for every cell, be it empty, a number or text. The diopter
  parser returns 0.0 for the number zero, for an empty cell and for a text whose
  cleaned form \<^verbatim>\<open>float\<close> rejects; the axial-length parser returns NaN for an
  empty cell and for a text whose cleaned form \<^verbatim>\<open>float\<close> rejects.
\<close>

theorem parsers_total:
  "(\<exists>v. extract_age pf x = Inr v)
   \<and> (\<exists>v. extract_hours pf x = Inr v)
   \<and> (\<exists>v. extract_diopters pf x = Inr v)
   \<and> (\<exists>v. extract_axial_length pf x = Inr v)
   \<and> extract_diopters pf (Num 0) = Inr (Some 0)
   \<and> extract_diopters pf Missing = Inr (Some 0)
   \<and> (pf (diopter_text (upper s)) = Inl e \<longrightarrow> extract_diopters pf (Str s) = Inr (Some 0))
   \<and> extract_axial_length pf Missing = Inr None
   \<and> (pf (strip (remove_all ''MM'' (upper s))) = Inl e \<longrightarrow>
        extract_axial_length pf (Str s) = Inr None)"
proof (intro conjI impI)
  show "\<exists>v. extract_age pf x = Inr v"
    by (cases x) (simp_all add: extract_age_def Let_def try_except_returns)
  show "\<exists>v. extract_hours pf x = Inr v"
    by (cases x) (simp_all add: extract_hours_def Let_def try_except_returns)
  show "\<exists>v. extract_diopters pf x = Inr v"
    by (cases x) (simp_all add: extract_diopters_def Let_def try_except_returns)
  show "\<exists>v. extract_axial_length pf x = Inr v"
    by (cases x) (simp_all add: extract_axial_length_def Let_def try_except_returns)
  show "extract_diopters pf (Num 0) = Inr (Some 0)"
    by (simp add: extract_diopters_def)
  show "extract_diopters pf Missing = Inr (Some 0)"
    by (simp add: extract_diopters_def)
  show "extract_axial_length pf Missing = Inr None"
    by (simp add: extract_axial_length_def)
next
  assume "pf (diopter_text (upper s)) = Inl e"
  then show "extract_diopters pf (Str s) = Inr (Some 0)"
    by (simp add: extract_diopters_def Let_def try_except_raise)
next
  assume "pf (strip (remove_all ''MM'' (upper s))) = Inl e"
  then show "extract_axial_length pf (Str s) = Inr None"
    by (simp add: extract_axial_length_def Let_def try_except_raise)
qed

lemmas string_defs = upper_def lower_def char_upper_def char_lower_def strip_def is_space_def
  is_digit_def

lemma plano_unparsable: "decimal_float (diopter_text (upper ''plano'')) = Inl ValueError"
  by (simp add: diopter_text_def decimal_float_def unsigned_decimal_def string_defs)

lemma unknown_unparsable:
  "decimal_float (strip (remove_all ''MM'' (upper ''n/a''))) = Inl ValueError"
  by (simp add: decimal_float_def unsigned_decimal_def string_defs)

theorem parsers_total_witness:
  "decimal_float (diopter_text (upper ''plano'')) = Inl ValueError
   \<and> extract_diopters decimal_float (Str ''plano'') = Inr (Some 0)
   \<and> decimal_float (strip (remove_all ''MM'' (upper ''n/a''))) = Inl ValueError
   \<and> extract_axial_length decimal_float (Str ''n/a'') = Inr None"
  using parsers_total [of decimal_float _ "''plano''" ValueError]
    parsers_total [of decimal_float _ "''n/a''" ValueError]
    plano_unparsable unknown_unparsable
  by simp

lemma parser_examples:
  "extract_diopters decimal_float (Str ''-2.50 DS'') = Inr (Some (- 2.5))
   \<and> extract_axial_length decimal_float (Str ''24.35 mm'') = Inr (Some 24.35)
   \<and> extract_hours decimal_float (Str ''2-3 hrs'') = Inr (Some 2)
   \<and> extract_age decimal_float (Str ''9 yrs'') = Inr (Some 9)"
  by (simp add: extract_diopters_def extract_axial_length_def extract_hours_def extract_age_def
      diopter_text_def decimal_float_def unsigned_decimal_def string_defs first_number_def
      try_except_def digits_val_def digit_val_def Let_def)

lemma prefix_py_in: "prefix w s \<Longrightarrow> py_in w s"
  by (cases s) simp_all

lemma word_scan_py_in: "word_scan w b s \<Longrightarrow> py_in w s"
  by (induction s arbitrary: b) auto

lemma has_word_mentions: "has_word w s \<Longrightarrow> mentions w s"
  by (simp add: has_word_def mentions_def word_scan_py_in)

text \<open>
  C4, as stated, fails: a value can name both parents without the word "both" and
  without one of the two comma-separated pairs. "Mother and Father" mentions the
  mother and the father and is encoded as 1.
\<close>

theorem both_parents_counterexample:
  "mentions ''mother'' ''Mother and Father'' \<and> mentions ''father'' ''Mother and Father''
   \<and> encode_myopic_parents (Str ''Mother and Father'') = 1"
  by (simp add: encode_myopic_parents_def mentions_def Let_def upper_def char_upper_def)

lemma mentions_upper:
  "mentions ''both'' s = py_in ''BOTH'' (upper s)"
  "mentions ''mother, father'' s = py_in ''MOTHER, FATHER'' (upper s)"
  "mentions ''father, mother'' s = py_in ''FATHER, MOTHER'' (upper s)"
  "mentions ''mother'' s = py_in ''MOTHER'' (upper s)"
  "mentions ''father'' s = py_in ''FATHER'' (upper s)"
  "mentions ''one'' s = py_in ''ONE'' (upper s)"
  by (simp_all add: mentions_def upper_def char_upper_def)

text \<open>
  C4, amended. Blind to case, the encoder maps an empty or numeric cell to 0; a
  text that contains "both", "mother, father" or "father, mother" to 2; any
  other text that contains "mother" or "father", or holds the word "one", to 1;
  and a text that contains none of "both", "mother", "father" and "one" to 0.
\<close>

theorem encode_myopic_parents_cases:
  "encode_myopic_parents Missing = 0
   \<and> encode_myopic_parents (Num x) = 0
   \<and> (mentions ''both'' s \<or> mentions ''mother, father'' s \<or> mentions ''father, mother'' s \<longrightarrow>
        encode_myopic_parents (Str s) = 2)
   \<and> (\<not> (mentions ''both'' s \<or> mentions ''mother, father'' s \<or> mentions ''father, mother'' s) \<longrightarrow>
        mentions ''mother'' s \<or> mentions ''father'' s \<or> has_word ''one'' s \<longrightarrow>
        encode_myopic_parents (Str s) = 1)
   \<and> (\<not> mentions ''both'' s \<and> \<not> mentions ''mother'' s \<and> \<not> mentions ''father'' s
        \<and> \<not> mentions ''one'' s \<longrightarrow>
        encode_myopic_parents (Str s) = 0)"
proof (intro conjI impI)
  show "encode_myopic_parents Missing = 0" "encode_myopic_parents (Num x) = 0"
    by (simp_all add: encode_myopic_parents_def)
next
  assume "mentions ''both'' s \<or> mentions ''mother, father'' s \<or> mentions ''father, mother'' s"
  then show "encode_myopic_parents (Str s) = 2"
    by (simp add: encode_myopic_parents_def Let_def mentions_upper)
next
  assume n: "\<not> (mentions ''both'' s \<or> mentions ''mother, father'' s \<or> mentions ''father, mother'' s)"
    and "mentions ''mother'' s \<or> mentions ''father'' s \<or> has_word ''one'' s"
  then have "mentions ''mother'' s \<or> mentions ''father'' s \<or> mentions ''one'' s"
    using has_word_mentions by blast
  with n show "encode_myopic_parents (Str s) = 1"
    by (simp add: encode_myopic_parents_def Let_def mentions_upper)
next
  assume n: "\<not> mentions ''both'' s \<and> \<not> mentions ''mother'' s \<and> \<not> mentions ''father'' s
        \<and> \<not> mentions ''one'' s"
  have "py_in ''MOTHER, FATHER'' t \<Longrightarrow> py_in ''MOTHER'' t" for t
    by (induction t) (auto simp: prefix_def)
  moreover have "py_in ''FATHER, MOTHER'' t \<Longrightarrow> py_in ''FATHER'' t" for t
    by (induction t) (auto simp: prefix_def)
  ultimately show "encode_myopic_parents (Str s) = 0"
    using n by (auto simp add: encode_myopic_parents_def Let_def mentions_upper)
qed

lemma encoder_examples:
  "encode_myopic_parents (Str ''Both'') = 2
   \<and> encode_myopic_parents (Str ''Mother'') = 1
   \<and> encode_myopic_parents (Str ''Father, Mother'') = 2
   \<and> encode_myopic_parents (Str ''One'') = 1
   \<and> encode_myopic_parents (Str ''No'') = 0
   \<and> encode_myopic_parents (Str ''None'') = 1"
  by (simp add: encode_myopic_parents_def Let_def upper_def char_upper_def)

theorem encode_myopic_parents_cases_witness:
  "mentions ''both'' ''Both parents'' \<and> encode_myopic_parents (Str ''Both parents'') = 2
   \<and> has_word ''one'' ''One parent'' \<and> encode_myopic_parents (Str ''One parent'') = 1
   \<and> \<not> mentions ''one'' ''No'' \<and> encode_myopic_parents (Str ''No'') = 0"
proof -
  have a: "mentions ''both'' ''Both parents''"
    by (simp add: mentions_def upper_def char_upper_def)
  have b: "has_word ''one'' ''One parent''"
    "\<not> (mentions ''both'' ''One parent'' \<or> mentions ''mother, father'' ''One parent''
        \<or> mentions ''father, mother'' ''One parent'')"
    by (simp_all add: has_word_def mentions_def upper_def char_upper_def is_letter_def)
  have c: "\<not> mentions ''both'' ''No'' \<and> \<not> mentions ''mother'' ''No''
        \<and> \<not> mentions ''father'' ''No'' \<and> \<not> mentions ''one'' ''No''"
    by (simp add: mentions_def upper_def char_upper_def)
  from encode_myopic_parents_cases [of _ "''Both parents''"]
    encode_myopic_parents_cases [of _ "''One parent''"]
    encode_myopic_parents_cases [of _ "''No''"] a b c
  show ?thesis by blast
qed

section \<open>Training and serving features\<close>

lemma extract_num [simp]:
  "extract_age pf (Num x) = Inr (Some x)"
  "extract_hours pf (Num x) = Inr (Some x)"
  "extract_diopters pf (Num x) = Inr (Some x)"
  "extract_axial_length pf (Num x) = Inr (Some x)"
  by (simp_all add: extract_age_def extract_hours_def extract_diopters_def
      extract_axial_length_def try_except_def)

lemma process_row_of_patient:
  "process_features_row pf (raw_of_patient p) =
     Inr \<lparr>age_col = Some (age p),
          age_diagnosis_col = Some (age_diagnosis p),
          age_at_diagnosis_col = Some (age_diagnosis p),
          years_since_diagnosis_col = Some (age p - age_diagnosis p),
          gender_col = gender_map (Str (gender p)),
          myopic_parents_col = encode_myopic_parents (Str (myopic_parents p)),
          outdoor_hours_col = Some (outdoor_hours p),
          screen_hours_col = Some (screen_hours p),
          screen_outdoor_ratio_col =
            (if outdoor_hours p + 0.1 = 0 then None
             else Some (screen_hours p / (outdoor_hours p + 0.1))),
          had_myopia_control_col = (if had_myopia_control p then 1 else 0),
          re_spherical_col = Some (re_spherical p),
          le_spherical_col = Some (le_spherical p),
          avg_spherical_col = Some ((re_spherical p + le_spherical p) / 2),
          myopia_severity_col = Some \<bar>(re_spherical p + le_spherical p) / 2\<bar>,
          re_cylinder_col = Some (re_cylinder p),
          le_cylinder_col = Some (le_cylinder p),
          has_astigmatism_col = (if re_cylinder p \<noteq> 0 \<or> le_cylinder p \<noteq> 0 then 1 else 0),
          re_axial_length_col = Some (re_axial_length p),
          le_axial_length_col = Some (le_axial_length p),
          avg_axial_length_col = Some ((re_axial_length p + le_axial_length p) / 2),
          axial_length_abnormal_col =
            (if (re_axial_length p + le_axial_length p) / 2 > 24.5 then 1 else 0),
          wearing_hours_col = Some (wearing_hours p),
          compliance_score_col = Some (clip (wearing_hours p / 12) 0 1)\<rparr>"
  by (simp add: process_features_row_def raw_of_patient_def bind_res_def Let_def nan2_def
      nan_div_def nan_ne_def nan_gt_def bool_int_def notna_def)

text \<open>
  On the values that both encoders know, the two paths build the same vector.
\<close>

lemma train_serve_agree:
  assumes g: "gender p \<in> {''M'', ''F'', ''Male'', ''Female''}"
    and m: "myopic_parents p \<in> {''One'', ''Both''}"
    and o: "outdoor_hours p + 0.1 \<noteq> 0"
    and l: "length medians = 15"
  shows "training_features pf medians (raw_of_patient p) = features_of p"
proof -
  obtain m0 m1 m2 m3 m4 m5 m6 m7 m8 m9 m10 m11 m12 m13 m14 where
    med: "medians = [m0, m1, m2, m3, m4, m5, m6, m7, m8, m9, m10, m11, m12, m13, m14]"
    using l by (auto simp: length_Suc_conv eval_nat_numeral)
  have ge: "gender_map (Str (gender p)) = Some (of_int (gender_encoded_of p))"
    using g by (auto simp: gender_map_def gender_encoded_of_def upper_def char_upper_def)
  have me: "encode_myopic_parents (Str (myopic_parents p)) = myopic_parents_encoded_of p"
    using m by (auto simp: encode_myopic_parents_def myopic_parents_encoded_of_def Let_def
        upper_def char_upper_def)
  show ?thesis
    using o
    by (simp add: training_features_def process_row_of_patient bind_res_def feature_cols_def
        fillna_def med ge me features_of_def screen_outdoor_ratio_of_def
        years_since_diagnosis_of_def myopia_severity_of_def avg_spherical_of_def
        has_astigmatism_of_def avg_axial_length_of_def axial_length_abnormal_of_def
        compliance_score_of_def)
qed

text \<open>
  C1. The two paths disagree on the fifth feature for a request whose
  parental-myopia text is "Mother": the server's table knows "None", "One" and
  "Both" only and encodes 0, the training encoder finds MOTHER and encodes 1; the
  other fourteen positions agree. They disagree on "None" as well (0 at serve
  time; 1 in training, where ONE is found inside NONE), and on the gender "male"
  (1 at serve time; no key of the training map, hence NaN and the column median).
\<close>

theorem train_serve_encodings_differ:
  "features_of patient_mother = Inr [9, 7, 2, 1, 0, 1, 5, 50 / 11, 0, 4, 0, 25, 1, 6, 0.5]
   \<and> training_features decimal_float features_high (raw_of_patient patient_mother)
       = Inr [9, 7, 2, 1, 1, 1, 5, 50 / 11, 0, 4, 0, 25, 1, 6, 0.5]
   \<and> myopic_parents_encoded_of (patient_high\<lparr>myopic_parents := ''None''\<rparr>) = 0
   \<and> encode_myopic_parents (Str ''None'') = 1
   \<and> gender_encoded_of (patient_high\<lparr>gender := ''male''\<rparr>) = 1
   \<and> gender_map (Str ''male'') = None"
proof (intro conjI)
  show "features_of patient_mother = Inr [9, 7, 2, 1, 0, 1, 5, 50 / 11, 0, 4, 0, 25, 1, 6, 0.5]"
    by (simp add: patient_mother_def features_of_def screen_outdoor_ratio_of_def bind_res_def
      patient_high_def years_since_diagnosis_of_def gender_encoded_of_def upper_def
      char_upper_def myopic_parents_encoded_of_def myopia_severity_of_def avg_spherical_of_def
      has_astigmatism_of_def avg_axial_length_of_def axial_length_abnormal_of_def
      compliance_score_of_def clip_def)
  show "training_features decimal_float features_high (raw_of_patient patient_mother)
       = Inr [9, 7, 2, 1, 1, 1, 5, 50 / 11, 0, 4, 0, 25, 1, 6, 0.5]"
    by (simp add: training_features_def process_row_of_patient bind_res_def feature_cols_def
        fillna_def features_high_def patient_mother_def patient_high_def gender_map_def
        encode_myopic_parents_def Let_def upper_def char_upper_def clip_def)
  show "myopic_parents_encoded_of (patient_high\<lparr>myopic_parents := ''None''\<rparr>) = 0"
    by (simp add: myopic_parents_encoded_of_def)
  show "encode_myopic_parents (Str ''None'') = 1"
    by (simp add: encode_myopic_parents_def Let_def upper_def char_upper_def)
  show "gender_encoded_of (patient_high\<lparr>gender := ''male''\<rparr>) = 1"
    by (simp add: gender_encoded_of_def upper_def char_upper_def)
  show "gender_map (Str ''male'') = None"
    by (simp add: gender_map_def)
qed

section \<open>Properties of the model loader\<close>

text \<open>
  C5, as stated, fails for the server: with an unreadable model file and a
  readable spreadsheet, \<^verbatim>\<open>MyopiaPredictionModel.load_model\<close> raises, the server's
  \<^verbatim>\<open>load_model\<close> catches it, trains a new model and returns that one, and
  the caller sees no error.
\<close>

theorem silent_fallback_counterexample:
  "fst (model_load_model init_model (Some Corrupted)) = Some UnpicklingError
   \<and> server_load_model (trainer_giving model_ok) corrupted_start
       = (Inr model_ok,
          \<lparr>model_global = Some model_ok, model_file = Some (save_model model_ok),
           excel_file = Some [raw_of_patient patient_high, raw_of_patient patient_mother]\<rparr>)"
  by (simp add: model_load_model_def server_load_model_def train_new_model_def
      corrupted_start_def trainer_giving_def Let_def)

lemma load_model_raises:
  "fst (model_load_model self None) = Some FileNotFoundError"
  "fst (model_load_model self (Some Corrupted)) = Some UnpicklingError"
  "classifier_entry d = None \<or> regressor_entry d = None \<or> scaler_entry d = None
     \<or> feature_importance_entry d = None \<Longrightarrow>
   fst (model_load_model self (Some (Blob d))) = Some KeyError"
  by (auto simp: model_load_model_def Let_def split: option.splits)

text \<open>
  C5, amended. \<^verbatim>\<open>MyopiaPredictionModel.load_model\<close> raises on an unreadable file
  and on a dictionary that lacks one of its four keys, and does not retry. The
  server's \<^verbatim>\<open>load_model\<close>, on its first call, catches that failure and falls
  back to training: with a readable spreadsheet and a successful fit it returns
  the new model and overwrites the model file; the caller sees an error only
  when the training itself fails or the spreadsheet is absent.
\<close>

theorem load_failure_falls_back_to_training:
  "fst (model_load_model self (Some Corrupted)) = Some UnpicklingError
   \<and> (classifier_entry d = None \<or> regressor_entry d = None \<or> scaler_entry d = None
        \<or> feature_importance_entry d = None \<longrightarrow>
        fst (model_load_model self (Some (Blob d))) = Some KeyError)
   \<and> (model_global st = None \<longrightarrow> model_file st = Some f \<longrightarrow>
        fst (model_load_model init_model (Some f)) = Some e \<longrightarrow>
          (excel_file st = Some rows \<longrightarrow> train rows = Inr m \<longrightarrow>
             server_load_model train st
               = (Inr m, st\<lparr>model_global := Some m, model_file := Some (save_model m)\<rparr>))
        \<and> (excel_file st = Some rows \<longrightarrow> train rows = Inl e' \<longrightarrow>
             fst (server_load_model train st) = Inl e')
        \<and> (excel_file st = None \<longrightarrow>
             fst (server_load_model train st) = Inl FileNotFoundError))"
proof (intro conjI impI)
  show "fst (model_load_model self (Some Corrupted)) = Some UnpicklingError"
    by (rule load_model_raises)
next
  assume "classifier_entry d = None \<or> regressor_entry d = None \<or> scaler_entry d = None
        \<or> feature_importance_entry d = None"
  then show "fst (model_load_model self (Some (Blob d))) = Some KeyError"
    by (rule load_model_raises)
next
  assume a: "model_global st = None" "model_file st = Some f"
    "fst (model_load_model init_model (Some f)) = Some e"
  obtain m' where l: "model_load_model init_model (Some f) = (Some e, m')"
    using a(3) by (cases "model_load_model init_model (Some f)") simp
  have s: "server_load_model train st = train_new_model train (st\<lparr>model_global := Some m'\<rparr>)"
    using a(1,2) l by (simp add: server_load_model_def Let_def)
  {
    assume "excel_file st = Some rows" "train rows = Inr m"
    then show "server_load_model train st
               = (Inr m, st\<lparr>model_global := Some m, model_file := Some (save_model m)\<rparr>)"
      by (simp add: s train_new_model_def)
  }
  {
    assume "excel_file st = Some rows" "train rows = Inl e'"
    then show "fst (server_load_model train st) = Inl e'"
      by (simp add: s train_new_model_def)
  }
  {
    assume "excel_file st = None"
    then show "fst (server_load_model train st) = Inl FileNotFoundError"
      by (simp add: s train_new_model_def)
  }
qed

theorem load_failure_falls_back_to_training_witness:
  "classifier_entry (\<lparr>classifier_entry = None, regressor_entry = None, scaler_entry = None,
       feature_importance_entry = None\<rparr> :: model_data) = None
   \<and> fst (model_load_model init_model (Some (Blob \<lparr>classifier_entry = None,
       regressor_entry = None, scaler_entry = None, feature_importance_entry = None\<rparr>)))
       = Some KeyError
   \<and> model_global corrupted_start = None
   \<and> fst (server_load_model (trainer_giving model_ok) corrupted_start) = Inr model_ok
   \<and> fst (server_load_model (\<lambda>rows. Inl ValueError) corrupted_start) = Inl ValueError
   \<and> fst (server_load_model (trainer_giving model_ok) (corrupted_start\<lparr>excel_file := None\<rparr>))
       = Inl FileNotFoundError"
proof -
  let ?d = "\<lparr>classifier_entry = None, regressor_entry = None, scaler_entry = None,
       feature_importance_entry = None\<rparr> :: model_data"
  have c: "fst (model_load_model init_model (Some Corrupted)) = Some UnpicklingError"
    by (simp add: model_load_model_def)
  note T = load_failure_falls_back_to_training
  from T [where d = ?d and self = init_model]
  have k: "fst (model_load_model init_model (Some (Blob ?d))) = Some KeyError" by simp
  from T [where st = corrupted_start and f = Corrupted and e = UnpicklingError
      and rows = "[raw_of_patient patient_high, raw_of_patient patient_mother]" and train = "trainer_giving model_ok" and m = model_ok] c
  have a: "fst (server_load_model (trainer_giving model_ok) corrupted_start) = Inr model_ok"
    by (simp add: corrupted_start_def trainer_giving_def)
  from T [where st = corrupted_start and f = Corrupted and e = UnpicklingError
      and rows = "[raw_of_patient patient_high, raw_of_patient patient_mother]" and train = "\<lambda>rows. Inl ValueError" and e' = ValueError] c
  have b: "fst (server_load_model (\<lambda>rows. Inl ValueError) corrupted_start) = Inl ValueError"
    by (simp add: corrupted_start_def)
  from T [where st = "corrupted_start\<lparr>excel_file := None\<rparr>" and f = Corrupted
      and e = UnpicklingError and train = "trainer_giving model_ok"] c
  have d: "fst (server_load_model (trainer_giving model_ok)
             (corrupted_start\<lparr>excel_file := None\<rparr>)) = Inl FileNotFoundError"
    by (simp add: corrupted_start_def)
  from k a b d show ?thesis by (simp add: corrupted_start_def)
qed

end
